theory Spec2Isabelle
  imports Main "HOL-Library.Word"
begin

section \<open>Errors\<close>

text \<open>
  Every C++ exception of the sources is a value: \<open>TORCH_CHECK\<close> and
  \<open>TORCH_INTERNAL_ASSERT\<close> raise \<open>c10::Error\<close>, \<open>TORCH_CHECK_INDEX\<close> raises
  \<open>c10::IndexError\<close>, \<open>TORCH_MUSA_CHECK\<close> raises on a runtime error code and
  \<open>CHECK_MUDNN_STATUS\<close> on a status of the primitive library other than SUCCESS.
\<close>

datatype musaError = musaSuccess | musaErrorNotReady | musaErrorCode nat

datatype error =
    TorchCheck string
  | InternalAssert string
  | IndexError string
  | MusaRuntimeError musaError
  | MudnnStatusError string

section \<open>MUSAStream.h\<close>

subsection \<open>The host framework's Device and Stream\<close>

datatype DeviceType =
    CPU | CUDA | MKLDNN | OPENGL | OPENCL | IDEEP | HIP | FPGA | ORT | XLA
  | Vulkan | Metal | XPU | MPS | Meta | HPU | VE | Lazy | IPU | MTIA
  | PrivateUse1 | COMPILE_TIME_MAX_DEVICE_TYPES

type_synonym DeviceIndex = "8 word"
type_synonym StreamId = "64 word"

record Device =
  d_type :: DeviceType
  d_index :: DeviceIndex

record Stream =
  s_device :: Device
  s_id :: StreamId

text \<open>
  Modelled from the spec: \<open>at::musa::kMUSA\<close> is declared in
  torch_musa/csrc/core/Device.h, which is not among the sources. The backend binds to
  the host framework's dispatch mechanism as an out-of-tree device, whose device type
  is \<open>PrivateUse1\<close>.
\<close>

definition kMUSA :: DeviceType where
  "kMUSA = PrivateUse1"

text \<open>
  The host framework's \<open>isValidDeviceType\<close>: every enumerator but the count
  \<open>COMPILE_TIME_MAX_DEVICE_TYPES\<close>.
\<close>

definition isValidDeviceType :: "DeviceType \<Rightarrow> bool" where
  "isValidDeviceType d = (d \<noteq> COMPILE_TIME_MAX_DEVICE_TYPES)"

text \<open>\<open>Device::operator==\<close> and \<open>Stream::operator==\<close> compare the members.\<close>

definition Device_eq :: "Device \<Rightarrow> Device \<Rightarrow> bool" where
  "Device_eq a b = (d_type a = d_type b \<and> d_index a = d_index b)"

definition Stream_eq :: "Stream \<Rightarrow> Stream \<Rightarrow> bool" where
  "Stream_eq a b = (Device_eq (s_device a) (s_device b) \<and> s_id a = s_id b)"

text \<open>\<open>struct StreamData3 { stream_id; device_index; device_type; }\<close>\<close>

record StreamData3 =
  stream_id :: StreamId
  device_index :: DeviceIndex
  device_type :: DeviceType

definition Stream_pack3 :: "Stream \<Rightarrow> StreamData3" where
  "Stream_pack3 s =
     \<lparr>stream_id = s_id s, device_index = d_index (s_device s), device_type = d_type (s_device s)\<rparr>"

definition Stream_unpack3 :: "StreamId \<Rightarrow> DeviceIndex \<Rightarrow> DeviceType \<Rightarrow> error + Stream" where
  "Stream_unpack3 sid idx ty =
     (if isValidDeviceType ty
      then Inr \<lparr>s_device = \<lparr>d_type = ty, d_index = idx\<rparr>, s_id = sid\<rparr>
      else Inl (TorchCheck ''isValidDeviceType(device_type)''))"

subsection \<open>class MUSAStream\<close>

record MUSAStream =
  m_stream :: Stream

text \<open>
  \<open>explicit MUSAStream(Stream stream)\<close> checks the device type;
  \<open>explicit MUSAStream(Unchecked, Stream stream)\<close> does not.
\<close>

definition MUSAStream_checked :: "Stream \<Rightarrow> error + MUSAStream" where
  "MUSAStream_checked s =
     (if d_type (s_device s) = kMUSA then Inr \<lparr>m_stream = s\<rparr>
      else Inl (TorchCheck ''stream_.device_type() == kMUSA''))"

definition MUSAStream_UNCHECKED :: "Stream \<Rightarrow> MUSAStream" where
  "MUSAStream_UNCHECKED s = \<lparr>m_stream = s\<rparr>"

definition unwrap :: "MUSAStream \<Rightarrow> Stream" where
  "unwrap m = m_stream m"

definition MUSAStream_eq :: "MUSAStream \<Rightarrow> MUSAStream \<Rightarrow> bool" where
  "MUSAStream_eq a b = Stream_eq (unwrap a) (unwrap b)"

definition MUSAStream_ne :: "MUSAStream \<Rightarrow> MUSAStream \<Rightarrow> bool" where
  "MUSAStream_ne a b = (\<not> Stream_eq (unwrap a) (unwrap b))"

definition pack3 :: "MUSAStream \<Rightarrow> StreamData3" where
  "pack3 m = Stream_pack3 (m_stream m)"

definition unpack3 :: "StreamId \<Rightarrow> DeviceIndex \<Rightarrow> DeviceType \<Rightarrow> error + MUSAStream" where
  "unpack3 sid idx ty =
     (case Stream_unpack3 sid idx ty of
        Inl e \<Rightarrow> Inl e
      | Inr s \<Rightarrow> MUSAStream_checked s)"

text \<open>
  \<open>std::hash<MUSAStream>\<close> applies \<open>std::hash<c10::Stream>\<close>, a function of the host
  framework taken as the parameter \<open>hash_Stream\<close>, to the unwrapped stream.
\<close>

definition hash_MUSAStream :: "(Stream \<Rightarrow> 64 word) \<Rightarrow> MUSAStream \<Rightarrow> 64 word" where
  "hash_MUSAStream hash_Stream s = hash_Stream (unwrap s)"

subsection \<open>Calls into the vendor runtime\<close>

text \<open>
  The vendor runtime is a black box. Its state, as far as \<open>query\<close> touches it, is the
  pending error that \<open>musaGetLastError\<close> returns and resets; the answer of each call is
  an argument of the model. A call that does not answer \<open>musaSuccess\<close> leaves its code
  pending.
\<close>

record musa_runtime =
  last_error :: musaError

definition musaStreamQuery :: "musaError \<Rightarrow> musa_runtime \<Rightarrow> musaError \<times> musa_runtime" where
  "musaStreamQuery answer rt =
     (answer, if answer = musaSuccess then rt else rt\<lparr>last_error := answer\<rparr>)"

definition musaGetLastError :: "musa_runtime \<Rightarrow> musaError \<times> musa_runtime" where
  "musaGetLastError rt = (last_error rt, rt\<lparr>last_error := musaSuccess\<rparr>)"

definition TORCH_MUSA_CHECK :: "musaError \<Rightarrow> error + unit" where
  "TORCH_MUSA_CHECK err = (if err = musaSuccess then Inr () else Inl (MusaRuntimeError err))"

text \<open>
  \<open>bool query() const\<close>: the device guard switches to the stream's device for the
  duration of the call and restores the previous device on every exit.
\<close>

definition query :: "musaError \<Rightarrow> musa_runtime \<Rightarrow> error + (bool \<times> musa_runtime)" where
  "query answer rt =
     (case musaStreamQuery answer rt of (err, rt1) \<Rightarrow>
        if err = musaSuccess then Inr (True, rt1)
        else if err \<noteq> musaErrorNotReady then
          (case TORCH_MUSA_CHECK err of
             Inl e \<Rightarrow> Inl e
           | Inr _ \<Rightarrow> Inr (False, rt1))
        else
          (case musaGetLastError rt1 of (_, rt2) \<Rightarrow> Inr (False, rt2)))"

text \<open>
  \<open>int priority() const\<close>: \<open>musaStreamGetPriority\<close> answers an error code and writes
  the priority; \<open>int\<close> is 32 bits wide.
\<close>

definition priority :: "musaError \<times> 32 word \<Rightarrow> error + 32 word" where
  "priority answer =
     (case answer of (err, p) \<Rightarrow>
        (case TORCH_MUSA_CHECK err of
           Inl e \<Rightarrow> Inl e
         | Inr _ \<Rightarrow> Inr (p - 1)))"

text \<open>
  \<open>static std::tuple<int, int> priority_range()\<close>:
  \<open>musaDeviceGetStreamPriorityRange\<close> answers an error code and writes the least and
  the greatest priority.
\<close>

definition priority_range :: "musaError \<times> 32 word \<times> 32 word \<Rightarrow> error + (32 word \<times> 32 word)" where
  "priority_range answer =
     (case answer of (err, least_priority, greatest_priority) \<Rightarrow>
        (case TORCH_MUSA_CHECK err of
           Inl e \<Rightarrow> Inl e
         | Inr _ \<Rightarrow>
             if \<not> (1 \<le>s least_priority)
             then Inl (InternalAssert ''Unexpected MUSA stream priority range'')
             else if \<not> (greatest_priority \<le>s 0)
             then Inl (InternalAssert ''Unexpected MUSA stream priority range'')
             else Inr (0, - 1)))"

section \<open>Reduce.cpp: result types\<close>

text \<open>The host framework's \<open>c10::ScalarType\<close>.\<close>

datatype ScalarType =
    kByte | kChar | kShort | kInt | kLong | kHalf | kFloat | kDouble
  | kComplexHalf | kComplexFloat | kComplexDouble | kBool
  | kQInt8 | kQUInt8 | kQInt32 | kBFloat16 | kQUInt4x2 | kQUInt2x4 | Undefined

definition isIntegralType :: "ScalarType \<Rightarrow> bool \<Rightarrow> bool" where
  "isIntegralType t includeBool =
     ((t = kByte \<or> t = kChar \<or> t = kInt \<or> t = kLong \<or> t = kShort)
      \<or> (includeBool \<and> t = kBool))"

definition isFloatingType :: "ScalarType \<Rightarrow> bool" where
  "isFloatingType t = (t = kDouble \<or> t = kFloat \<or> t = kHalf \<or> t = kBFloat16)"

text \<open>
  What the sources read of a tensor: whether it is defined, its scalar type, sizes,
  device and contiguity. The elements are symbolic (\<open>contents\<close>, below): the kernels run
  in the primitive library, so a value is recorded by where it comes from.
\<close>

datatype Mode = Mode_MEAN | Mode_ADD | Mode_PROD | Mode_NORM | Mode_OR | Mode_AND | Mode_MAX | Mode_MIN

datatype CUM_MODE = CUM_ADD | CUM_MUL

text \<open>
  The order of a norm as \<open>ReduceCall\<close> hands it to the library: the default \<open>2.0f\<close>,
  or a \<open>float\<close> cast of the integral or of the floating-point value of the scalar.
\<close>

datatype Scalar = IntegralScalar int | FloatingScalar int | BoolScalar bool | ComplexScalar int

datatype norm_ord = DefaultOrd | OrdOfInt int | OrdOfDouble int

datatype contents =
    Uninitialized
  | Given nat
  | Zero
  | ConvertedTo ScalarType contents
  | FilledWith contents
  | ReduceRun Mode "int list" "norm_ord option" contents
  | ReduceRunWithIndices_values Mode int contents
  | ReduceRunWithIndices_indices Mode int contents
  | ReduceRunIndices Mode int contents
  | CumRun CUM_MODE int contents
  | HostMax contents
  | HostMin contents
  | HostVar contents
  | HostMean contents

record TensorImpl =
  defined :: bool
  scalar_type :: ScalarType
  sizes :: "nat list"
  device :: Device
  is_contiguous :: bool
  elements :: contents

text \<open>\<open>Tensor()\<close>: the undefined tensor, whose scalar type reads as Undefined.\<close>

definition undefined_Tensor :: TensorImpl where
  "undefined_Tensor =
     \<lparr>defined = False, scalar_type = Undefined, sizes = [0],
      device = \<lparr>d_type = CPU, d_index = - 1\<rparr>, is_contiguous = True, elements = Uninitialized\<rparr>"

definition musa_get_dtype_from_self :: "TensorImpl \<Rightarrow> ScalarType option \<Rightarrow> bool \<Rightarrow> ScalarType" where
  "musa_get_dtype_from_self self dtype promote_integers =
     (case dtype of
        Some d \<Rightarrow> d
      | None \<Rightarrow>
          (let src_type = scalar_type self in
           if promote_integers \<and> isIntegralType src_type True then kLong else src_type))"

definition musa_infer_dtype_from_optional :: "TensorImpl \<Rightarrow> ScalarType option \<Rightarrow> TensorImpl \<Rightarrow> ScalarType" where
  "musa_infer_dtype_from_optional self opt_dtype result =
     (if defined result
      then (case opt_dtype of Some d \<Rightarrow> d | None \<Rightarrow> scalar_type result)
      else musa_get_dtype_from_self self opt_dtype True)"

section \<open>Reduce.cpp: the host framework's dimension and shape rules\<close>

text \<open>
  Modelled from the spec: \<open>maybe_wrap_dim\<close>, \<open>maybe_wrap_dims\<close> and
  \<open>at::meta::get_reduction_shape\<close> are the host framework's shape-inference rules that
  the sources call; they come with the framework's headers, not with the sources.
  A dimension is an \<open>int64_t\<close>; a dimension that is not in \<open>[-n, n - 1]\<close> raises
  (for a tensor of no dimensions the range is \<open>[-1, 0]\<close>).
\<close>

definition maybe_wrap_dim :: "int \<Rightarrow> nat \<Rightarrow> error + int" where
  "maybe_wrap_dim d dim_post_expr =
     (let n = (if dim_post_expr = 0 then 1 else int dim_post_expr) in
      if - n \<le> d \<and> d < n then Inr (if d < 0 then d + n else d)
      else Inl (IndexError ''Dimension out of range''))"

fun maybe_wrap_dims :: "int list \<Rightarrow> nat \<Rightarrow> error + int list" where
  "maybe_wrap_dims [] dim_post_expr = Inr []"
| "maybe_wrap_dims (d # ds) dim_post_expr =
     (case maybe_wrap_dim d dim_post_expr of
        Inl e \<Rightarrow> Inl e
      | Inr d' \<Rightarrow>
          (case maybe_wrap_dims ds dim_post_expr of
             Inl e \<Rightarrow> Inl e
           | Inr ds' \<Rightarrow> Inr (d' # ds')))"

text \<open>
  \<open>DimMask\<close> is \<open>std::bitset<64>\<close>. \<open>dim_list_to_bitset\<close> refuses more than 64
  dimensions and a dimension that appears twice.
\<close>

type_synonym DimMask = "64 word"

fun dim_list_to_bitset_loop :: "int list \<Rightarrow> nat \<Rightarrow> DimMask \<Rightarrow> error + DimMask" where
  "dim_list_to_bitset_loop [] ndims seen = Inr seen"
| "dim_list_to_bitset_loop (d # ds) ndims seen =
     (case maybe_wrap_dim d ndims of
        Inl e \<Rightarrow> Inl e
      | Inr dim \<Rightarrow>
          if bit seen (nat dim)
          then Inl (TorchCheck ''dim appears multiple times in the list of dims'')
          else dim_list_to_bitset_loop ds ndims (set_bit (nat dim) seen))"

definition dim_list_to_bitset :: "int list \<Rightarrow> nat \<Rightarrow> error + DimMask" where
  "dim_list_to_bitset dims ndims =
     (if \<not> ndims \<le> 64 then Inl (TorchCheck ''only tensors with up to 64 dims are supported'')
      else dim_list_to_bitset_loop dims ndims 0)"

definition make_dim_mask :: "int list \<Rightarrow> nat \<Rightarrow> error + DimMask" where
  "make_dim_mask dims ndim =
     (if dims = [] then Inr (- 1) else dim_list_to_bitset dims ndim)"

text \<open>
  \<open>shape_from_dim_mask\<close> walks the dimensions from the last to the first; a masked
  dimension is set to 1 (keepdim) or erased. Reading the bitset at 64 or beyond is
  undefined in the source; the theorems below are about tensors of at most 64 dimensions.
\<close>

fun shape_from_dim_mask_loop :: "DimMask \<Rightarrow> bool \<Rightarrow> nat \<Rightarrow> nat list \<Rightarrow> nat list" where
  "shape_from_dim_mask_loop dmask keepdim 0 shape = shape"
| "shape_from_dim_mask_loop dmask keepdim (Suc d) shape =
     shape_from_dim_mask_loop dmask keepdim d
       (if bit dmask d
        then (if keepdim then shape[d := 1] else take d shape @ drop (Suc d) shape)
        else shape)"

definition shape_from_dim_mask :: "TensorImpl \<Rightarrow> DimMask \<Rightarrow> bool \<Rightarrow> nat list" where
  "shape_from_dim_mask self dmask keepdim =
     shape_from_dim_mask_loop dmask keepdim (length (sizes self)) (sizes self)"

definition get_reduction_shape :: "TensorImpl \<Rightarrow> int list \<Rightarrow> bool \<Rightarrow> error + nat list" where
  "get_reduction_shape self dims keepdim =
     (case make_dim_mask dims (length (sizes self)) of
        Inl e \<Rightarrow> Inl e
      | Inr dmask \<Rightarrow> Inr (shape_from_dim_mask self dmask keepdim))"

text \<open>
  The reduction shape in the words of the specification: negative dims wrapped into
  range, each reduced dimension removed, or kept with size 1 when keepdim is true. An
  empty dim list reduces every dimension.
\<close>

definition wrap_into_range :: "nat \<Rightarrow> int \<Rightarrow> nat" where
  "wrap_into_range n d = nat (if d < 0 then d + int (max 1 n) else d)"

definition reduced_dims :: "nat \<Rightarrow> int list \<Rightarrow> nat set" where
  "reduced_dims n dims = (if dims = [] then {0..<n} else wrap_into_range n ` set dims)"

definition spec_reduction_shape :: "nat list \<Rightarrow> int list \<Rightarrow> bool \<Rightarrow> nat list" where
  "spec_reduction_shape shape dims keepdim =
     (if keepdim
      then map (\<lambda>i. if i \<in> reduced_dims (length shape) dims then 1 else shape ! i)
             [0..<length shape]
      else map (\<lambda>i. shape ! i)
             (filter (\<lambda>i. i \<notin> reduced_dims (length shape) dims) [0..<length shape]))"

text \<open>The dim lists that the host framework accepts for a tensor of \<open>n\<close> dimensions.\<close>

definition dims_in_range :: "nat \<Rightarrow> int list \<Rightarrow> bool" where
  "dims_in_range n dims =
     list_all (\<lambda>d. - int (max 1 n) \<le> d \<and> d < int (max 1 n)) dims"

definition dims_accepted :: "nat \<Rightarrow> int list \<Rightarrow> bool" where
  "dims_accepted n dims =
     (dims_in_range n dims \<and> distinct (map (wrap_into_range n) dims)
      \<and> (dims \<noteq> [] \<longrightarrow> n \<le> 64))"

section \<open>Reduce.cpp: tensors, the primitive library and effects\<close>

text \<open>
  An \<open>at::Tensor\<close> is a handle to a tensor object; two handles may name the same object
  (\<open>is_same\<close>). The store maps a handle to its object, \<open>next_ref\<close> is the next handle
  that an allocation returns, and \<open>trace\<close> lists the device guards and the calls into
  the primitive library in the order in which they happen.
\<close>

type_synonym Tensor = nat

datatype Status = SUCCESS | NOT_SUCCESS nat

datatype mudnn_call =
    Reduce_SetMode Mode
  | Reduce_SetDim "int list"
  | Reduce_SetNormOrd norm_ord
  | Reduce_Run Tensor Tensor
  | Reduce_RunWithIndices Tensor Tensor Tensor
  | Reduce_RunIndices Tensor Tensor
  | Cum_SetDim int
  | Cum_SetMode CUM_MODE
  | Cum_Run Tensor Tensor

datatype event =
    MUSAGuard Device
  | CreateMUTensor_of Tensor
  | GetMudnnHandle_call
  | Mudnn mudnn_call

record world =
  heap :: "Tensor \<Rightarrow> TensorImpl"
  next_ref :: nat
  trace :: "event list"

type_synonym 'a M = "world \<Rightarrow> (error + 'a) \<times> world"

definition ret :: "'a \<Rightarrow> 'a M" where
  "ret x w = (Inr x, w)"

definition raise :: "error \<Rightarrow> 'a M" where
  "raise e w = (Inl e, w)"

definition bnd :: "'a M \<Rightarrow> ('a \<Rightarrow> 'b M) \<Rightarrow> 'b M" where
  "bnd m f w = (case m w of (Inl e, w') \<Rightarrow> (Inl e, w') | (Inr x, w') \<Rightarrow> f x w')"

definition lift :: "error + 'a \<Rightarrow> 'a M" where
  "lift r w = (r, w)"

definition read :: "Tensor \<Rightarrow> TensorImpl M" where
  "read t w = (Inr (heap w t), w)"

definition modify :: "Tensor \<Rightarrow> (TensorImpl \<Rightarrow> TensorImpl) \<Rightarrow> unit M" where
  "modify t f w = (Inr (), w\<lparr>heap := (heap w)(t := f (heap w t))\<rparr>)"

definition alloc :: "TensorImpl \<Rightarrow> Tensor M" where
  "alloc impl w =
     (Inr (next_ref w),
      w\<lparr>heap := (heap w)(next_ref w := impl), next_ref := Suc (next_ref w)\<rparr>)"

definition emit :: "event \<Rightarrow> unit M" where
  "emit e w = (Inr (), w\<lparr>trace := trace w @ [e]\<rparr>)"

subsection \<open>Operations of the host framework\<close>

definition numel :: "TensorImpl \<Rightarrow> nat" where
  "numel t = prod_list (sizes t)"

definition dim :: "TensorImpl \<Rightarrow> nat" where
  "dim t = length (sizes t)"

text \<open>\<open>static_cast<int>\<close> of an \<open>int64_t\<close>.\<close>

definition narrow_int :: "int \<Rightarrow> int" where
  "narrow_int x = signed_take_bit 31 x"

definition at_empty :: "nat list \<Rightarrow> Device \<Rightarrow> ScalarType \<Rightarrow> Tensor M" where
  "at_empty shape dev dtype =
     alloc \<lparr>defined = True, scalar_type = dtype, sizes = shape, device = dev,
            is_contiguous = True, elements = Uninitialized\<rparr>"

definition zero_inplace :: "Tensor \<Rightarrow> unit M" where
  "zero_inplace t = modify t (\<lambda>impl. impl\<lparr>elements := Zero\<rparr>)"

definition fill_inplace :: "Tensor \<Rightarrow> Tensor \<Rightarrow> unit M" where
  "fill_inplace t v = bnd (read v) (\<lambda>vi. modify t (\<lambda>impl. impl\<lparr>elements := FilledWith (elements vi)\<rparr>))"

text \<open>\<open>Tensor::to(ScalarType)\<close> returns a new tensor of the given type.\<close>

definition to_dtype :: "Tensor \<Rightarrow> ScalarType \<Rightarrow> Tensor M" where
  "to_dtype t dtype =
     bnd (read t) (\<lambda>impl.
       alloc (impl\<lparr>scalar_type := dtype, elements := ConvertedTo dtype (elements impl)\<rparr>))"

text \<open>\<open>Tensor::copy_\<close> writes the elements of \<open>src\<close> into \<open>dst\<close>, converted to the type of \<open>dst\<close>.\<close>

definition copy_inplace :: "Tensor \<Rightarrow> Tensor \<Rightarrow> unit M" where
  "copy_inplace dst src =
     bnd (read src) (\<lambda>si.
       modify dst (\<lambda>impl. impl\<lparr>elements :=
         (if scalar_type si = scalar_type impl then elements si
          else ConvertedTo (scalar_type impl) (elements si))\<rparr>))"

text \<open>
  \<open>native::resize_output\<close> leaves a tensor of the requested shape as it is and resizes
  any other one, which makes it contiguous.
\<close>

definition resize_output :: "Tensor \<Rightarrow> nat list \<Rightarrow> unit M" where
  "resize_output t shape =
     bnd (read t) (\<lambda>impl.
       if sizes impl = shape then ret ()
       else modify t (\<lambda>impl. impl\<lparr>sizes := shape, is_contiguous := True,
                                   elements := Uninitialized\<rparr>))"

subsection \<open>Helpers of torch_musa/csrc/aten/utils/Utils.h\<close>

text \<open>
  Modelled from the spec: \<open>Contiguous\<close>, \<open>FormatContiguous\<close> and \<open>CreateMUTensor\<close>
  are declared in torch_musa/csrc/aten/utils/Utils.h, which is not among the sources.
  They marshal a tensor into the library's call conventions: \<open>FormatContiguous\<close> and
  \<open>Contiguous\<close> return the tensor itself when it is contiguous and a contiguous copy
  otherwise (\<open>ReduceIndicesCall\<close> tests the result with \<open>is_same\<close>), and
  \<open>CreateMUTensor\<close> makes the library's handle of the tensor's memory.
\<close>

definition FormatContiguous :: "Tensor \<Rightarrow> Tensor M" where
  "FormatContiguous t =
     bnd (read t) (\<lambda>impl.
       if is_contiguous impl then ret t
       else alloc (impl\<lparr>is_contiguous := True\<rparr>))"

definition Contiguous :: "Tensor \<Rightarrow> Tensor M" where
  "Contiguous t = FormatContiguous t"

definition CreateMUTensor :: "Tensor \<Rightarrow> Tensor M" where
  "CreateMUTensor t = bnd (emit (CreateMUTensor_of t)) (\<lambda>_. ret t)"

definition GetMudnnHandle :: "unit M" where
  "GetMudnnHandle = emit GetMudnnHandle_call"

subsection \<open>The primitive library\<close>

text \<open>
  The library is a black box: the status that each call answers is the argument
  \<open>lib\<close>, and what a successful run writes into its output is recorded as such.
\<close>

definition CHECK_MUDNN_STATUS :: "(mudnn_call \<Rightarrow> Status) \<Rightarrow> mudnn_call \<Rightarrow> string \<Rightarrow> unit M" where
  "CHECK_MUDNN_STATUS lib c msg =
     bnd (emit (Mudnn c)) (\<lambda>_.
       if lib c = SUCCESS then ret () else raise (MudnnStatusError msg))"

definition Reduce_Run_effect :: "Mode \<Rightarrow> int list \<Rightarrow> norm_ord option \<Rightarrow> Tensor \<Rightarrow> Tensor \<Rightarrow> unit M" where
  "Reduce_Run_effect m dims ord out inp =
     bnd (read inp) (\<lambda>i. modify out (\<lambda>impl. impl\<lparr>elements := ReduceRun m dims ord (elements i)\<rparr>))"

definition Reduce_RunWithIndices_effect :: "Mode \<Rightarrow> int \<Rightarrow> Tensor \<Rightarrow> Tensor \<Rightarrow> Tensor \<Rightarrow> unit M" where
  "Reduce_RunWithIndices_effect m d out ids inp =
     bnd (read inp) (\<lambda>i.
     bnd (modify out (\<lambda>impl. impl\<lparr>elements := ReduceRunWithIndices_values m d (elements i)\<rparr>)) (\<lambda>_.
       modify ids (\<lambda>impl. impl\<lparr>elements := ReduceRunWithIndices_indices m d (elements i)\<rparr>)))"

definition Reduce_RunIndices_effect :: "Mode \<Rightarrow> int \<Rightarrow> Tensor \<Rightarrow> Tensor \<Rightarrow> unit M" where
  "Reduce_RunIndices_effect m d out inp =
     bnd (read inp) (\<lambda>i. modify out (\<lambda>impl. impl\<lparr>elements := ReduceRunIndices m d (elements i)\<rparr>))"

definition Cum_Run_effect :: "CUM_MODE \<Rightarrow> int \<Rightarrow> Tensor \<Rightarrow> Tensor \<Rightarrow> unit M" where
  "Cum_Run_effect mode d out inp =
     bnd (read inp) (\<lambda>i. modify out (\<lambda>impl. impl\<lparr>elements := CumRun mode d (elements i)\<rparr>))"

section \<open>Reduce.cpp: the operations\<close>

text \<open>
  Names of named tensors (\<open>namedinference::propagate_names\<close>) are not part of the
  model: no operation below reads them.
\<close>

definition norm_p_value :: "Scalar option \<Rightarrow> norm_ord M" where
  "norm_p_value p =
     (case p of
        None \<Rightarrow> ret DefaultOrd
      | Some (IntegralScalar v) \<Rightarrow> ret (OrdOfInt v)
      | Some (FloatingScalar v) \<Rightarrow> ret (OrdOfDouble v)
      | Some _ \<Rightarrow> raise (TorchCheck ''norm_kernel_musa_impl expects norm to be integer or float''))"

definition ReduceCall ::
  "(mudnn_call \<Rightarrow> Status) \<Rightarrow> Tensor \<Rightarrow> Tensor \<Rightarrow> int list \<Rightarrow> Mode \<Rightarrow> Scalar option \<Rightarrow> bool \<Rightarrow> unit M" where
  "ReduceCall lib output self dims m p is_norm =
     bnd (read self) (\<lambda>s.
     bnd (emit (MUSAGuard (device s))) (\<lambda>_.
       if numel s = 0 then ret ()
       else
         bnd (Contiguous self) (\<lambda>input.
         bnd (CreateMUTensor output) (\<lambda>out.
         bnd (CreateMUTensor input) (\<lambda>inp.
         bnd GetMudnnHandle (\<lambda>_.
         bnd (CHECK_MUDNN_STATUS lib (Reduce_SetMode m) ''SetMode'') (\<lambda>_.
         bnd (ret (if dim s = 0 \<and> numel s = 1 then [] else map narrow_int dims)) (\<lambda>dim_int.
         bnd (CHECK_MUDNN_STATUS lib (Reduce_SetDim dim_int) ''SetDim'') (\<lambda>_.
         bnd (if is_norm
              then bnd (norm_p_value p) (\<lambda>p_value.
                   bnd (CHECK_MUDNN_STATUS lib (Reduce_SetNormOrd p_value) ''SetNormOrd'') (\<lambda>_.
                     ret (Some p_value)))
              else ret None) (\<lambda>ord.
         bnd (CHECK_MUDNN_STATUS lib (Reduce_Run out inp) ''Run'') (\<lambda>_.
           Reduce_Run_effect m dim_int ord out inp)))))))))))"

definition Reduction ::
  "(mudnn_call \<Rightarrow> Status) \<Rightarrow> Tensor \<Rightarrow> int list \<Rightarrow> bool \<Rightarrow> ScalarType option \<Rightarrow> Mode
     \<Rightarrow> Scalar option \<Rightarrow> bool \<Rightarrow> Tensor M" where
  "Reduction lib self dims keepdim out_dtype m p is_norm =
     bnd (read self) (\<lambda>s.
     bnd (emit (MUSAGuard (device s))) (\<lambda>_.
     bnd (ret (musa_infer_dtype_from_optional s out_dtype undefined_Tensor)) (\<lambda>out_dtype.
     bnd (lift (maybe_wrap_dims dims (dim s))) (\<lambda>dims_vec.
     bnd (lift (get_reduction_shape s dims_vec keepdim)) (\<lambda>shape.
     bnd (at_empty shape (device s) out_dtype) (\<lambda>output.
     bnd (if numel s = 0 then zero_inplace output
          else ReduceCall lib output self dims_vec m p is_norm) (\<lambda>_.
       ret output)))))))"

definition Mean :: "(mudnn_call \<Rightarrow> Status) \<Rightarrow> Tensor \<Rightarrow> ScalarType option \<Rightarrow> Tensor M" where
  "Mean lib self dtype = Reduction lib self [] False dtype Mode_MEAN None False"

definition Sum :: "(mudnn_call \<Rightarrow> Status) \<Rightarrow> Tensor \<Rightarrow> ScalarType option \<Rightarrow> Tensor M" where
  "Sum lib self dtype = Reduction lib self [] False dtype Mode_ADD None False"

definition SumIntList ::
  "(mudnn_call \<Rightarrow> Status) \<Rightarrow> Tensor \<Rightarrow> int list \<Rightarrow> bool \<Rightarrow> ScalarType option \<Rightarrow> Tensor M" where
  "SumIntList lib self dims keepdim opt_dtype = Reduction lib self dims keepdim opt_dtype Mode_ADD None False"

definition Prod :: "(mudnn_call \<Rightarrow> Status) \<Rightarrow> Tensor \<Rightarrow> ScalarType option \<Rightarrow> Tensor M" where
  "Prod lib self dtype = Reduction lib self [] False dtype Mode_PROD None False"

subsection \<open>Cumulative operations\<close>

text \<open>
  The types in which \<open>CumulativeImpl\<close> computes: the pair
  \<open>(in_ctype, out_ctype)\<close> after the promotion and the workarounds for the library.
  \<open>promoteTypes\<close> is the host framework's promotion table, an argument of the model.
\<close>

definition cumulative_ctypes ::
  "(ScalarType \<Rightarrow> ScalarType \<Rightarrow> ScalarType) \<Rightarrow> ScalarType \<Rightarrow> ScalarType \<Rightarrow> ScalarType \<times> ScalarType" where
  "cumulative_ctypes promoteTypes in_ctype out_ctype =
     (if isFloatingType in_ctype \<or> isFloatingType out_ctype
      then (promoteTypes in_ctype out_ctype, promoteTypes in_ctype out_ctype)
      else if out_ctype = kInt \<or> out_ctype = kLong
      then (if in_ctype = kByte \<or> in_ctype = kShort then (kInt, out_ctype)
            else if in_ctype = kLong then (in_ctype, in_ctype)
            else (in_ctype, out_ctype))
      else (if in_ctype = kLong then (in_ctype, in_ctype)
            else if in_ctype = kByte \<or> in_ctype = kShort then (kInt, kInt)
            else (in_ctype, kInt)))"

definition make_proxy :: "Tensor \<Rightarrow> ScalarType \<Rightarrow> Tensor M" where
  "make_proxy t dtype =
     bnd (read t) (\<lambda>impl.
       if dtype \<noteq> scalar_type impl then to_dtype t dtype else ret t)"

definition CumulativeImpl ::
  "(mudnn_call \<Rightarrow> Status) \<Rightarrow> (ScalarType \<Rightarrow> ScalarType \<Rightarrow> ScalarType)
     \<Rightarrow> Tensor \<Rightarrow> Tensor \<Rightarrow> int \<Rightarrow> CUM_MODE \<Rightarrow> unit M" where
  "CumulativeImpl lib promoteTypes out inp d mode =
     bnd (read inp) (\<lambda>i0.
       if numel i0 = 0 then ret ()
       else
         bnd (if dim i0 = 0 then fill_inplace out inp else ret ()) (\<lambda>_.
         bnd (read inp) (\<lambda>i.
         bnd (emit (MUSAGuard (device i))) (\<lambda>_.
         bnd (read out) (\<lambda>o0.
         bnd (ret (cumulative_ctypes promoteTypes (scalar_type i) (scalar_type o0))) (\<lambda>ctypes.
         bnd (make_proxy inp (fst ctypes)) (\<lambda>c_in.
         bnd (make_proxy out (snd ctypes)) (\<lambda>c_out.
         bnd (FormatContiguous c_in) (\<lambda>contig_c_in.
         bnd (FormatContiguous c_out) (\<lambda>contig_c_out.
         bnd (CreateMUTensor contig_c_out) (\<lambda>mudnn_out.
         bnd (CreateMUTensor contig_c_in) (\<lambda>mudnn_in.
         bnd GetMudnnHandle (\<lambda>_.
         bnd (CHECK_MUDNN_STATUS lib (Cum_SetDim (narrow_int d)) ''SetDim'') (\<lambda>_.
         bnd (CHECK_MUDNN_STATUS lib (Cum_SetMode mode) ''SetMode'') (\<lambda>_.
         bnd (CHECK_MUDNN_STATUS lib (Cum_Run mudnn_out mudnn_in) ''CumRun'') (\<lambda>_.
         bnd (Cum_Run_effect mode (narrow_int d) mudnn_out mudnn_in) (\<lambda>_.
         bnd (read out) (\<lambda>o1.
           if snd ctypes \<noteq> scalar_type o1 then copy_inplace out contig_c_out
           else ret ()))))))))))))))))))"

definition CumulativeOut ::
  "(mudnn_call \<Rightarrow> Status) \<Rightarrow> (ScalarType \<Rightarrow> ScalarType \<Rightarrow> ScalarType)
     \<Rightarrow> Tensor \<Rightarrow> int \<Rightarrow> ScalarType option \<Rightarrow> Tensor \<Rightarrow> CUM_MODE \<Rightarrow> Tensor M" where
  "CumulativeOut lib promoteTypes self d dtype out mode =
     bnd (read out) (\<lambda>o0.
     bnd (case dtype of
            Some expect_dtype \<Rightarrow>
              if expect_dtype = scalar_type o0 then ret ()
              else raise (TorchCheck ''Expected out tensor to have dtype'')
          | None \<Rightarrow> ret ()) (\<lambda>_.
     bnd (read self) (\<lambda>s.
     bnd (resize_output out (sizes s)) (\<lambda>_.
     bnd (CumulativeImpl lib promoteTypes out self d mode) (\<lambda>_.
       ret out)))))"

definition Cumulative_inplace ::
  "(mudnn_call \<Rightarrow> Status) \<Rightarrow> (ScalarType \<Rightarrow> ScalarType \<Rightarrow> ScalarType)
     \<Rightarrow> Tensor \<Rightarrow> int \<Rightarrow> ScalarType option \<Rightarrow> CUM_MODE \<Rightarrow> Tensor M" where
  "Cumulative_inplace lib promoteTypes self d dtype mode =
     bnd (CumulativeImpl lib promoteTypes self self d mode) (\<lambda>_. ret self)"

definition Cumulative ::
  "(mudnn_call \<Rightarrow> Status) \<Rightarrow> (ScalarType \<Rightarrow> ScalarType \<Rightarrow> ScalarType)
     \<Rightarrow> Tensor \<Rightarrow> int \<Rightarrow> ScalarType option \<Rightarrow> CUM_MODE \<Rightarrow> Tensor M" where
  "Cumulative lib promoteTypes self d dtype mode =
     bnd (read self) (\<lambda>s.
     bnd (ret (case dtype of
                 Some t \<Rightarrow> t
               | None \<Rightarrow> if isIntegralType (scalar_type s) True then kLong else scalar_type s)) (\<lambda>out_dtype.
     bnd (at_empty (sizes s) (device s) out_dtype) (\<lambda>out.
     bnd (CumulativeImpl lib promoteTypes out self d mode) (\<lambda>_.
       ret out))))"

text \<open>\<open>GEN_CUMULATIVE_FUNCTION(CumSum, CUM_MODE::ADD)\<close> and \<open>(CumProd, CUM_MODE::MUL)\<close>.\<close>

definition CumSum ::
  "(mudnn_call \<Rightarrow> Status) \<Rightarrow> (ScalarType \<Rightarrow> ScalarType \<Rightarrow> ScalarType)
     \<Rightarrow> Tensor \<Rightarrow> int \<Rightarrow> ScalarType option \<Rightarrow> Tensor M" where
  "CumSum lib promoteTypes self d dtype = Cumulative lib promoteTypes self d dtype CUM_ADD"

definition CumSumOut ::
  "(mudnn_call \<Rightarrow> Status) \<Rightarrow> (ScalarType \<Rightarrow> ScalarType \<Rightarrow> ScalarType)
     \<Rightarrow> Tensor \<Rightarrow> int \<Rightarrow> ScalarType option \<Rightarrow> Tensor \<Rightarrow> Tensor M" where
  "CumSumOut lib promoteTypes self d dtype out = CumulativeOut lib promoteTypes self d dtype out CUM_ADD"

definition CumProd ::
  "(mudnn_call \<Rightarrow> Status) \<Rightarrow> (ScalarType \<Rightarrow> ScalarType \<Rightarrow> ScalarType)
     \<Rightarrow> Tensor \<Rightarrow> int \<Rightarrow> ScalarType option \<Rightarrow> Tensor M" where
  "CumProd lib promoteTypes self d dtype = Cumulative lib promoteTypes self d dtype CUM_MUL"

definition CumProdOut ::
  "(mudnn_call \<Rightarrow> Status) \<Rightarrow> (ScalarType \<Rightarrow> ScalarType \<Rightarrow> ScalarType)
     \<Rightarrow> Tensor \<Rightarrow> int \<Rightarrow> ScalarType option \<Rightarrow> Tensor \<Rightarrow> Tensor M" where
  "CumProdOut lib promoteTypes self d dtype out = CumulativeOut lib promoteTypes self d dtype out CUM_MUL"

subsection \<open>Any and All\<close>

definition Any :: "(mudnn_call \<Rightarrow> Status) \<Rightarrow> Tensor \<Rightarrow> Tensor M" where
  "Any lib self =
     bnd (read self) (\<lambda>s.
     bnd (Reduction lib self [] False (Some (scalar_type s)) Mode_OR None False) (\<lambda>out.
     bnd (read self) (\<lambda>s1.
       if scalar_type s1 \<noteq> kBool then to_dtype out kBool else ret out)))"

definition All :: "(mudnn_call \<Rightarrow> Status) \<Rightarrow> Tensor \<Rightarrow> Tensor M" where
  "All lib self =
     bnd (read self) (\<lambda>s.
     bnd (Reduction lib self [] False (Some (scalar_type s)) Mode_AND None False) (\<lambda>output.
     bnd (read self) (\<lambda>s1.
       if scalar_type s1 \<noteq> kBool then to_dtype output kBool else ret output)))"

subsection \<open>Reductions with indices\<close>

definition ReduceIndicesCall ::
  "(mudnn_call \<Rightarrow> Status) \<Rightarrow> Tensor \<Rightarrow> Tensor \<Rightarrow> Tensor \<Rightarrow> int \<Rightarrow> Mode \<Rightarrow> unit M" where
  "ReduceIndicesCall lib output indices self d m =
     bnd (read self) (\<lambda>s.
     bnd (read output) (\<lambda>o0.
     bnd (if scalar_type s = scalar_type o0 then ret ()
          else raise (TorchCheck ''scalar_type of in&out must be the same'')) (\<lambda>_.
     bnd (emit (MUSAGuard (device s))) (\<lambda>_.
     bnd (FormatContiguous output) (\<lambda>out_tmp.
     bnd (FormatContiguous indices) (\<lambda>indices_tmp.
     bnd (CreateMUTensor out_tmp) (\<lambda>out.
     bnd (CreateMUTensor indices_tmp) (\<lambda>ids.
     bnd (CreateMUTensor self) (\<lambda>inp.
     bnd GetMudnnHandle (\<lambda>_.
     bnd (CHECK_MUDNN_STATUS lib (Reduce_SetMode m) ''SetMode'') (\<lambda>_.
     bnd (CHECK_MUDNN_STATUS lib (Reduce_SetDim [narrow_int d]) ''SetDim'') (\<lambda>_.
     bnd (CHECK_MUDNN_STATUS lib (Reduce_RunWithIndices out ids inp) ''RunWithIndices'') (\<lambda>_.
     bnd (Reduce_RunWithIndices_effect m (narrow_int d) out ids inp) (\<lambda>_.
     bnd (if output \<noteq> out_tmp then copy_inplace output out_tmp else ret ()) (\<lambda>_.
       if indices \<noteq> indices_tmp then copy_inplace indices indices_tmp else ret ())))))))))))))))"

definition ReduceIndicesOnlyCall ::
  "(mudnn_call \<Rightarrow> Status) \<Rightarrow> Tensor \<Rightarrow> Tensor \<Rightarrow> int \<Rightarrow> Mode \<Rightarrow> unit M" where
  "ReduceIndicesOnlyCall lib output self d m =
     bnd (read self) (\<lambda>s.
     bnd (emit (MUSAGuard (device s))) (\<lambda>_.
     bnd (FormatContiguous output) (\<lambda>out_tmp.
     bnd (CreateMUTensor out_tmp) (\<lambda>out.
     bnd (CreateMUTensor self) (\<lambda>inp.
     bnd GetMudnnHandle (\<lambda>_.
     bnd (CHECK_MUDNN_STATUS lib (Reduce_SetMode m) ''SetMode'') (\<lambda>_.
     bnd (CHECK_MUDNN_STATUS lib (Reduce_SetDim [narrow_int d]) ''SetDim'') (\<lambda>_.
     bnd (CHECK_MUDNN_STATUS lib (Reduce_RunIndices out inp) ''RunIndices'') (\<lambda>_.
     bnd (Reduce_RunIndices_effect m (narrow_int d) out inp) (\<lambda>_.
       if output \<noteq> out_tmp then copy_inplace output out_tmp else ret ()))))))))))"

definition ReductionIndices ::
  "(mudnn_call \<Rightarrow> Status) \<Rightarrow> Tensor \<Rightarrow> int \<Rightarrow> bool \<Rightarrow> Mode \<Rightarrow> (Tensor \<times> Tensor) M" where
  "ReductionIndices lib self d keepdim m =
     bnd (read self) (\<lambda>s.
     bnd (lift (maybe_wrap_dim d (dim s))) (\<lambda>d1.
     bnd (lift (maybe_wrap_dims [d1] (dim s))) (\<lambda>dims_vec.
     bnd (lift (get_reduction_shape s dims_vec keepdim)) (\<lambda>shape.
     bnd (at_empty shape (device s) (scalar_type s)) (\<lambda>output.
     bnd (at_empty shape (device s) kLong) (\<lambda>indices.
     bnd (ReduceIndicesCall lib output indices self d1 m) (\<lambda>_.
       ret (output, indices))))))))"

definition MaxDim ::
  "(mudnn_call \<Rightarrow> Status) \<Rightarrow> Tensor \<Rightarrow> int \<Rightarrow> bool \<Rightarrow> (Tensor \<times> Tensor) M" where
  "MaxDim lib self d keepdim = ReductionIndices lib self d keepdim Mode_MAX"

definition MinDim ::
  "(mudnn_call \<Rightarrow> Status) \<Rightarrow> Tensor \<Rightarrow> int \<Rightarrow> bool \<Rightarrow> (Tensor \<times> Tensor) M" where
  "MinDim lib self d keepdim = ReductionIndices lib self d keepdim Mode_MIN"

subsection \<open>MaxAll and MinAll\<close>

text \<open>
  A Double tensor is reduced by the host framework on the CPU:
  \<open>at::max(self.to("cpu")).to("musa")\<close>. The host's full \<open>max\<close> and \<open>min\<close> refuse a
  tensor without elements; the copy back lands on the current device, which the guard
  has set to the device of \<open>self\<close>.
\<close>

definition to_device :: "Tensor \<Rightarrow> Device \<Rightarrow> Tensor M" where
  "to_device t dev = bnd (read t) (\<lambda>impl. alloc (impl\<lparr>device := dev\<rparr>))"

definition host_reduce_all :: "(contents \<Rightarrow> contents) \<Rightarrow> Tensor \<Rightarrow> Tensor M" where
  "host_reduce_all f t =
     bnd (read t) (\<lambda>impl.
       if numel impl = 0
       then raise (TorchCheck ''Expected reduction dim to be specified for input.numel() == 0'')
       else alloc (impl\<lparr>sizes := [], is_contiguous := True, elements := f (elements impl)\<rparr>))"





subsection \<open>Variance\<close>









subsection \<open>Properties of a run\<close>

text \<open>
  A trace is guarded for a device when a guard of that device comes before the first
  library tensor handle and the first call into the library.
\<close>

fun is_library_event :: "event \<Rightarrow> bool" where
  "is_library_event (MUSAGuard d) = False"
| "is_library_event (CreateMUTensor_of t) = True"
| "is_library_event GetMudnnHandle_call = True"
| "is_library_event (Mudnn c) = True"

fun guarded :: "Device \<Rightarrow> event list \<Rightarrow> bool" where
  "guarded d [] = True"
| "guarded d (e # es) = (if e = MUSAGuard d then True else (\<not> is_library_event e \<and> guarded d es))"

text \<open>The trace starts with a guard of the device.\<close>

definition guard_first :: "Device \<Rightarrow> world \<Rightarrow> bool" where
  "guard_first d w = (\<exists>es. trace w = MUSAGuard d # es)"


text \<open>The elements that are the cumulative result of the library over the input \<open>c\<close>.\<close>

fun cumulative_of :: "CUM_MODE \<Rightarrow> int \<Rightarrow> contents \<Rightarrow> contents \<Rightarrow> bool" where
  "cumulative_of mode d c (CumRun mode' d' c') =
     (mode' = mode \<and> d' = d \<and> (c' = c \<or> (case c' of ConvertedTo t c'' \<Rightarrow> c'' = c | _ \<Rightarrow> False)))"
| "cumulative_of mode d c (ConvertedTo t r) = cumulative_of mode d c r"
| "cumulative_of mode d c r = False"

text \<open>
  What \<open>ReduceCall\<close> marshals for a tensor \<open>s\<close>: the dims as \<open>int\<close>s (none for a
  scalar tensor), the order of a norm, and the events of a call that runs the library on
  the handles \<open>out\<close> and \<open>inp\<close>.
\<close>

definition marshalled_dims :: "TensorImpl \<Rightarrow> int list \<Rightarrow> int list" where
  "marshalled_dims s dims = (if dim s = 0 \<and> numel s = 1 then [] else map narrow_int dims)"

definition marshalled_ord :: "bool \<Rightarrow> Scalar option \<Rightarrow> norm_ord option" where
  "marshalled_ord is_norm p =
     (if is_norm
      then (case p of
              None \<Rightarrow> Some DefaultOrd
            | Some (IntegralScalar v) \<Rightarrow> Some (OrdOfInt v)
            | Some (FloatingScalar v) \<Rightarrow> Some (OrdOfDouble v)
            | Some _ \<Rightarrow> None)
      else None)"

definition marshalled_reduce ::
  "Device \<Rightarrow> Tensor \<Rightarrow> Tensor \<Rightarrow> Mode \<Rightarrow> int list \<Rightarrow> norm_ord option \<Rightarrow> event list" where
  "marshalled_reduce dev out inp m dim_int ord =
     [MUSAGuard dev, CreateMUTensor_of out, CreateMUTensor_of inp, GetMudnnHandle_call,
      Mudnn (Reduce_SetMode m), Mudnn (Reduce_SetDim dim_int)]
     @ (case ord of None \<Rightarrow> [] | Some p_value \<Rightarrow> [Mudnn (Reduce_SetNormOrd p_value)])
     @ [Mudnn (Reduce_Run out inp)]"




definition all_success :: "mudnn_call \<Rightarrow> Status" where
  "all_success c = SUCCESS"

text \<open>
  The postcondition of a run: \<open>Qe\<close> of the store when the operation raises, \<open>Q\<close> of
  the result and the store when it returns.
\<close>

definition wp :: "'a M \<Rightarrow> (world \<Rightarrow> bool) \<Rightarrow> ('a \<Rightarrow> world \<Rightarrow> bool) \<Rightarrow> world \<Rightarrow> bool" where
  "wp m Qe Q w = (case m w of (Inl e, w') \<Rightarrow> Qe w' | (Inr x, w') \<Rightarrow> Q x w')"

subsection \<open>Example stores\<close>

definition musa0 :: Device where
  "musa0 = \<lparr>d_type = kMUSA, d_index = 0\<rparr>"

definition tensor_of :: "ScalarType \<Rightarrow> nat list \<Rightarrow> bool \<Rightarrow> nat \<Rightarrow> TensorImpl" where
  "tensor_of dtype shape contig k =
     \<lparr>defined = True, scalar_type = dtype, sizes = shape, device = musa0,
      is_contiguous = contig, elements = Given k\<rparr>"

text \<open>One tensor, at handle 0.\<close>

definition store1 :: "TensorImpl \<Rightarrow> world" where
  "store1 a = \<lparr>heap = (\<lambda>_. undefined_Tensor)(0 := a), next_ref = 1, trace = []\<rparr>"

text \<open>Two tensors, at the handles 0 and 1.\<close>

definition store2 :: "TensorImpl \<Rightarrow> TensorImpl \<Rightarrow> world" where
  "store2 a b = \<lparr>heap = (\<lambda>_. undefined_Tensor)(0 := a, 1 := b), next_ref = 2, trace = []\<rparr>"


section \<open>Lemmas: dimensions and shapes\<close>

lemma maybe_wrap_dim_Inr:
  "maybe_wrap_dim d n = Inr d' \<longleftrightarrow>
     (- int (max 1 n) \<le> d \<and> d < int (max 1 n) \<and> d' = int (wrap_into_range n d))"
  by (auto simp: maybe_wrap_dim_def wrap_into_range_def Let_def max_def)

lemma maybe_wrap_dim_Inl:
  "(\<exists>e. maybe_wrap_dim d n = Inl e) \<longleftrightarrow> \<not> (- int (max 1 n) \<le> d \<and> d < int (max 1 n))"
  by (auto simp: maybe_wrap_dim_def wrap_into_range_def Let_def max_def)

lemma wrap_into_range_less:
  "- int (max 1 n) \<le> d \<Longrightarrow> d < int (max 1 n) \<Longrightarrow> wrap_into_range n d < max 1 n"
  by (auto simp: wrap_into_range_def max_def)

lemma wrap_into_range_idem:
  "wrap_into_range n (int (wrap_into_range n d)) = wrap_into_range n d"
  by (simp add: wrap_into_range_def)

lemma maybe_wrap_dims_Inr:
  "maybe_wrap_dims ds n = Inr dv \<longleftrightarrow>
     (dims_in_range n ds \<and> dv = map (\<lambda>d. int (wrap_into_range n d)) ds)"
proof (induction ds arbitrary: dv)
  case Nil
  show ?case by (auto simp: dims_in_range_def)
next
  case (Cons d ds)
  show ?case
  proof (cases "maybe_wrap_dim d n")
    case (Inl e)
    then have "\<not> (- int (max 1 n) \<le> d \<and> d < int (max 1 n))"
      using maybe_wrap_dim_Inl [of d n] by blast
    with Inl show ?thesis by (auto simp: dims_in_range_def)
  next
    case (Inr d')
    then have d: "- int (max 1 n) \<le> d" "d < int (max 1 n)" "d' = int (wrap_into_range n d)"
      using maybe_wrap_dim_Inr [of d n d'] by auto
    show ?thesis
    proof (cases "maybe_wrap_dims ds n")
      case (Inl e)
      then have "\<not> dims_in_range n ds" using Cons.IH by auto
      with Inl Inr show ?thesis by (auto simp: dims_in_range_def)
    next
      case r: (Inr ds')
      then have "dims_in_range n ds" "ds' = map (\<lambda>d. int (wrap_into_range n d)) ds"
        using Cons.IH [of ds'] by auto
      with r Inr d show ?thesis by (auto simp: dims_in_range_def)
    qed
  qed
qed

lemma shape_from_dim_mask_loop_eq:
  "k \<le> length shape \<Longrightarrow>
   shape_from_dim_mask_loop dmask keepdim k shape =
     (if keepdim then map (\<lambda>i. if bit dmask i then 1 else shape ! i) [0..<k]
      else map (\<lambda>i. shape ! i) (filter (\<lambda>i. \<not> bit dmask i) [0..<k])) @ drop k shape"
proof (induction k arbitrary: shape)
  case 0
  show ?case by simp
next
  case (Suc k)
  then have k: "k < length shape" by simp
  show ?case
  proof (cases "bit dmask k")
    case False
    then show ?thesis
      using Suc.IH [of shape] k by (simp add: Cons_nth_drop_Suc)
  next
    case True
    show ?thesis
    proof (cases keepdim)
      case kd: True
      have "shape_from_dim_mask_loop dmask keepdim (Suc k) shape =
              shape_from_dim_mask_loop dmask keepdim k (shape[k := 1])"
        using True kd by simp
      also have "\<dots> = map (\<lambda>i. if bit dmask i then 1 else (shape[k := 1]) ! i) [0..<k]
                        @ drop k (shape[k := 1])"
        using Suc.IH [of "shape[k := 1]"] k kd by simp
      also have "map (\<lambda>i. if bit dmask i then 1 else (shape[k := 1]) ! i) [0..<k]
                   = map (\<lambda>i. if bit dmask i then 1 else shape ! i) [0..<k]"
        by (rule map_cong) auto
      also have "drop k (shape[k := 1]) = 1 # drop (Suc k) shape"
        using k by (simp add: drop_update_swap flip: Cons_nth_drop_Suc)
      finally show ?thesis using True kd by simp
    next
      case kd: False
      let ?s = "take k shape @ drop (Suc k) shape"
      have len: "k \<le> length ?s" using k by simp
      have "shape_from_dim_mask_loop dmask keepdim (Suc k) shape =
              shape_from_dim_mask_loop dmask keepdim k ?s"
        using True kd by simp
      also have "\<dots> = map (\<lambda>i. ?s ! i) (filter (\<lambda>i. \<not> bit dmask i) [0..<k]) @ drop k ?s"
        using Suc.IH [OF len] kd by simp
      also have "map (\<lambda>i. ?s ! i) (filter (\<lambda>i. \<not> bit dmask i) [0..<k])
                   = map (\<lambda>i. shape ! i) (filter (\<lambda>i. \<not> bit dmask i) [0..<k])"
        using k by (intro map_cong) (auto simp: nth_append)
      also have "drop k ?s = drop (Suc k) shape"
        using k by simp
      finally show ?thesis using True kd by simp
    qed
  qed
qed

lemma dim_list_to_bitset_loop_bits:
  "dims_in_range n ds \<Longrightarrow> n \<le> 64 \<Longrightarrow> dim_list_to_bitset_loop ds n seen = Inr m \<Longrightarrow>
   bit m i \<longleftrightarrow> bit seen i \<or> i \<in> wrap_into_range n ` set ds"
proof (induction ds arbitrary: seen)
  case Nil
  then show ?case by simp
next
  case (Cons d ds)
  from Cons.prems(1) have d: "- int (max 1 n) \<le> d" "d < int (max 1 n)" and ds: "dims_in_range n ds"
    by (auto simp: dims_in_range_def)
  have w: "maybe_wrap_dim d n = Inr (int (wrap_into_range n d))"
    using d by (simp add: maybe_wrap_dim_Inr)
  have lt: "wrap_into_range n d < 64"
    using wrap_into_range_less [OF d] Cons.prems(2) by (simp add: max_def split: if_splits)
  from Cons.prems(3) w
  have loop: "dim_list_to_bitset_loop ds n (set_bit (wrap_into_range n d) seen) = Inr m"
    by (simp split: if_splits)
  have "bit m i \<longleftrightarrow> bit (set_bit (wrap_into_range n d) seen) i \<or> i \<in> wrap_into_range n ` set ds"
    by (rule Cons.IH [OF ds Cons.prems(2) loop])
  also have "bit (set_bit (wrap_into_range n d) seen) i \<longleftrightarrow> bit seen i \<or> i = wrap_into_range n d"
    using lt by (auto simp: bit_set_bit_iff)
  finally show ?case by auto
qed

lemma dim_list_to_bitset_loop_total:
  "dims_in_range n ds \<Longrightarrow> n \<le> 64 \<Longrightarrow> distinct (map (wrap_into_range n) ds) \<Longrightarrow>
   (\<forall>d \<in> set ds. \<not> bit seen (wrap_into_range n d)) \<Longrightarrow>
   \<exists>m. dim_list_to_bitset_loop ds n seen = Inr m"
proof (induction ds arbitrary: seen)
  case Nil
  then show ?case by simp
next
  case (Cons d ds)
  from Cons.prems(1) have d: "- int (max 1 n) \<le> d" "d < int (max 1 n)" and ds: "dims_in_range n ds"
    by (auto simp: dims_in_range_def)
  have w: "maybe_wrap_dim d n = Inr (int (wrap_into_range n d))"
    using d by (simp add: maybe_wrap_dim_Inr)
  have fresh: "\<forall>d' \<in> set ds. \<not> bit (set_bit (wrap_into_range n d) seen) (wrap_into_range n d')"
    using Cons.prems(3,4) by (auto simp: bit_set_bit_iff)
  have "\<exists>m. dim_list_to_bitset_loop ds n (set_bit (wrap_into_range n d) seen) = Inr m"
    using Cons.IH [OF ds Cons.prems(2) _ fresh] Cons.prems(3) by simp
  then show ?case
    using w Cons.prems(4) by simp
qed

lemma dims_in_range_wrapped:
  "dims_in_range n ds \<Longrightarrow> dims_in_range n (map (\<lambda>d. int (wrap_into_range n d)) ds)"
  using wrap_into_range_less [of n]
  by (auto simp: dims_in_range_def list_all_iff)

lemma wrapped_image:
  "wrap_into_range n ` set (map (\<lambda>d. int (wrap_into_range n d)) ds) = wrap_into_range n ` set ds"
  by (auto simp: wrap_into_range_idem image_iff)

lemma get_reduction_shape_spec:
  assumes r: "dims_in_range (length (sizes s)) dims"
    and n: "length (sizes s) \<le> 64"
    and g: "get_reduction_shape s (map (\<lambda>d. int (wrap_into_range (length (sizes s)) d)) dims) keepdim
              = Inr shape"
  shows "shape = spec_reduction_shape (sizes s) dims keepdim"
proof -
  let ?n = "length (sizes s)"
  let ?dv = "map (\<lambda>d. int (wrap_into_range ?n d)) dims"
  obtain m where m: "make_dim_mask ?dv ?n = Inr m" and sh: "shape = shape_from_dim_mask s m keepdim"
    using g by (auto simp: get_reduction_shape_def split: sum.splits)
  have bits: "bit m i \<longleftrightarrow> i \<in> reduced_dims ?n dims" if "i < ?n" for i
  proof (cases "dims = []")
    case True
    then have "m = - 1" using m by (simp add: make_dim_mask_def)
    then show ?thesis using True that n by (simp add: reduced_dims_def)
  next
    case False
    then have "dim_list_to_bitset_loop ?dv ?n 0 = Inr m"
      using m by (simp add: make_dim_mask_def dim_list_to_bitset_def split: if_splits)
    then have "bit m i \<longleftrightarrow> bit (0 :: 64 word) i \<or> i \<in> wrap_into_range ?n ` set ?dv"
      by (rule dim_list_to_bitset_loop_bits [OF dims_in_range_wrapped [OF r] n])
    then show ?thesis
      using False by (simp only: wrapped_image reduced_dims_def) simp
  qed
  have "shape = (if keepdim then map (\<lambda>i. if bit m i then 1 else sizes s ! i) [0..<?n]
      else map (\<lambda>i. sizes s ! i) (filter (\<lambda>i. \<not> bit m i) [0..<?n]))"
    using sh by (simp add: shape_from_dim_mask_def shape_from_dim_mask_loop_eq)
  also have "\<dots> = spec_reduction_shape (sizes s) dims keepdim"
    unfolding spec_reduction_shape_def
    using bits by (auto intro!: map_cong filter_cong)
  finally show ?thesis .
qed

lemma get_reduction_shape_total:
  assumes "dims_accepted (length (sizes s)) dims"
  shows "\<exists>shape. get_reduction_shape s (map (\<lambda>d. int (wrap_into_range (length (sizes s)) d)) dims) keepdim
              = Inr shape"
proof (cases "dims = []")
  case True
  then show ?thesis by (simp add: get_reduction_shape_def make_dim_mask_def)
next
  case False
  let ?n = "length (sizes s)"
  let ?dv = "map (\<lambda>d. int (wrap_into_range ?n d)) dims"
  from assms False have r: "dims_in_range ?n dims" and n: "?n \<le> 64"
    and dist: "distinct (map (wrap_into_range ?n) dims)"
    by (auto simp: dims_accepted_def)
  have "distinct (map (wrap_into_range ?n) ?dv)"
    using dist by (simp add: comp_def wrap_into_range_idem)
  then have "\<exists>m. dim_list_to_bitset_loop ?dv ?n 0 = Inr m"
    by (intro dim_list_to_bitset_loop_total [OF dims_in_range_wrapped [OF r] n]) auto
  then show ?thesis
    using False n by (auto simp: get_reduction_shape_def make_dim_mask_def dim_list_to_bitset_def)
qed

section \<open>Lemmas: postconditions\<close>

lemma wp_ret [simp]: "wp (ret x) Qe Q w = Q x w"
  by (simp add: wp_def ret_def)

lemma wp_raise [simp]: "wp (raise e) Qe Q w = Qe w"
  by (simp add: wp_def raise_def)

lemma wp_lift [simp]: "wp (lift r) Qe Q w = (case r of Inl e \<Rightarrow> Qe w | Inr x \<Rightarrow> Q x w)"
  by (simp add: wp_def lift_def split: sum.splits)

lemma wp_bnd [simp]: "wp (bnd m f) Qe Q w = wp m Qe (\<lambda>x. wp (f x) Qe Q) w"
  by (simp add: wp_def bnd_def split: prod.splits sum.splits)

lemma wp_read [simp]: "wp (read t) Qe Q w = Q (heap w t) w"
  by (simp add: wp_def read_def)

lemma wp_modify [simp]:
  "wp (modify t f) Qe Q w = Q () (w\<lparr>heap := (heap w)(t := f (heap w t))\<rparr>)"
  by (simp add: wp_def modify_def)

lemma wp_alloc [simp]:
  "wp (alloc impl) Qe Q w =
     Q (next_ref w) (w\<lparr>heap := (heap w)(next_ref w := impl), next_ref := Suc (next_ref w)\<rparr>)"
  by (simp add: wp_def alloc_def)

lemma wp_emit [simp]: "wp (emit e) Qe Q w = Q () (w\<lparr>trace := trace w @ [e]\<rparr>)"
  by (simp add: wp_def emit_def)

lemma wp_if [simp]:
  "wp (if b then m else n) Qe Q w = (if b then wp m Qe Q w else wp n Qe Q w)"
  by simp

lemma wp_CHECK_MUDNN_STATUS [simp]:
  "wp (CHECK_MUDNN_STATUS lib c msg) Qe Q w =
     (if lib c = SUCCESS then Q () (w\<lparr>trace := trace w @ [Mudnn c]\<rparr>)
      else Qe (w\<lparr>trace := trace w @ [Mudnn c]\<rparr>))"
  by (simp add: CHECK_MUDNN_STATUS_def)

lemma wp_returned: "wp m Qe Q w \<Longrightarrow> m w = (Inr x, w') \<Longrightarrow> Q x w'"
  by (simp add: wp_def)

lemma wp_returns: "wp m (\<lambda>_. False) Q w \<Longrightarrow> \<exists>x w'. m w = (Inr x, w') \<and> Q x w'"
  by (auto simp: wp_def split: prod.splits sum.splits)

lemma wp_always: "wp m Q (\<lambda>_. Q) w \<Longrightarrow> Q (snd (m w))"
  by (auto simp: wp_def split: prod.splits sum.splits)

lemma wp_mono:
  "wp m Qe Q w \<Longrightarrow> (\<And>w'. Qe w' \<Longrightarrow> Qe' w') \<Longrightarrow> (\<And>x w'. Q x w' \<Longrightarrow> Q' x w') \<Longrightarrow> wp m Qe' Q' w"
  by (auto simp: wp_def split: prod.splits sum.splits)

lemma wp_conj:
  "wp m Qe Q w \<Longrightarrow> wp m Qe' Q' w \<Longrightarrow> wp m (\<lambda>w'. Qe w' \<and> Qe' w') (\<lambda>x w'. Q x w' \<and> Q' x w') w"
  by (auto simp: wp_def split: prod.splits sum.splits)

lemmas op_defs = at_empty_def zero_inplace_def fill_inplace_def to_dtype_def copy_inplace_def
  resize_output_def FormatContiguous_def Contiguous_def CreateMUTensor_def GetMudnnHandle_def
  Reduce_Run_effect_def Reduce_RunWithIndices_effect_def
  Reduce_RunIndices_effect_def Cum_Run_effect_def to_device_def host_reduce_all_def

subsection \<open>Reduction and ReductionIndices\<close>

lemma wp_Reduction:
  assumes "self < next_ref w"
  shows "wp (Reduction lib self dims keepdim od m p is_norm) (\<lambda>_. True)
     (\<lambda>out w'. out = next_ref w \<and> next_ref w < next_ref w' \<and> heap w' self = heap w self
        \<and> scalar_type (heap w' out) = musa_infer_dtype_from_optional (heap w self) od undefined_Tensor
        \<and> dims_in_range (dim (heap w self)) dims
        \<and> get_reduction_shape (heap w self)
             (map (\<lambda>d. int (wrap_into_range (dim (heap w self)) d)) dims) keepdim
            = Inr (sizes (heap w' out))
        \<and> (if numel (heap w self) = 0
            then elements (heap w' out) = Zero
                 \<and> trace w' = trace w @ [MUSAGuard (device (heap w self))]
            else (\<exists>dim_int ord. elements (heap w' out)
                    = ReduceRun m dim_int ord (elements (heap w self)))
                 \<and> (\<exists>es t1 t2. trace w' = trace w @ es @ [Mudnn (Reduce_Run t1 t2)]))) w"
  using assms
  by (auto simp: Reduction_def ReduceCall_def op_defs maybe_wrap_dims_Inr norm_p_value_def
      split: sum.splits option.splits Scalar.splits)

lemma Reduction_returns:
  assumes self: "self < next_ref w"
    and dims: "dims_accepted (dim (heap w self)) dims"
    and lib: "\<forall>c. lib c = SUCCESS"
  shows "wp (Reduction lib self dims keepdim od m None False) (\<lambda>_. False) (\<lambda>out w'. True) w"
proof -
  obtain shape where "get_reduction_shape (heap w self)
      (map (\<lambda>d. int (wrap_into_range (dim (heap w self)) d)) dims) keepdim = Inr shape"
    using get_reduction_shape_total [of "heap w self" dims keepdim] dims by (auto simp: dim_def)
  moreover have "maybe_wrap_dims dims (dim (heap w self))
      = Inr (map (\<lambda>d. int (wrap_into_range (dim (heap w self)) d)) dims)"
    using dims by (simp add: maybe_wrap_dims_Inr dims_accepted_def)
  ultimately show ?thesis
    using self lib by (simp add: Reduction_def ReduceCall_def op_defs)
qed

lemma wp_ReductionIndices:
  assumes "self < next_ref w"
  shows "wp (ReductionIndices lib self d keepdim m) (\<lambda>_. True)
     (\<lambda>r w'. dims_in_range (dim (heap w self)) [d]
        \<and> get_reduction_shape (heap w self)
             (map (\<lambda>d. int (wrap_into_range (dim (heap w self)) d)) [d]) keepdim
            = Inr (sizes (heap w' (fst r)))
        \<and> sizes (heap w' (snd r)) = sizes (heap w' (fst r))
        \<and> scalar_type (heap w' (fst r)) = scalar_type (heap w self)
        \<and> scalar_type (heap w' (snd r)) = kLong) w"
  using assms
  by (auto simp: ReductionIndices_def ReduceIndicesCall_def op_defs maybe_wrap_dims_Inr
      maybe_wrap_dim_Inr wrap_into_range_idem dims_in_range_def
      split: sum.splits)

lemma ReductionIndices_returns:
  assumes self: "self < next_ref w"
    and dims: "dims_accepted (dim (heap w self)) [d]"
    and lib: "\<forall>c. lib c = SUCCESS"
  shows "wp (ReductionIndices lib self d keepdim m) (\<lambda>_. False) (\<lambda>r w'. True) w"
proof -
  let ?n = "dim (heap w self)"
  obtain shape where "get_reduction_shape (heap w self)
      (map (\<lambda>d. int (wrap_into_range ?n d)) [d]) keepdim = Inr shape"
    using get_reduction_shape_total [of "heap w self" "[d]" keepdim] dims by (auto simp: dim_def)
  moreover have "maybe_wrap_dim d ?n = Inr (int (wrap_into_range ?n d))"
    using dims by (simp add: maybe_wrap_dim_Inr dims_accepted_def dims_in_range_def)
  moreover have "maybe_wrap_dims [int (wrap_into_range ?n d)] ?n
      = Inr [int (wrap_into_range ?n d)]"
    using dims_in_range_wrapped [of ?n "[d]"] dims
    unfolding maybe_wrap_dims_Inr by (simp add: dims_accepted_def wrap_into_range_idem)
  ultimately show ?thesis
    using self lib by (simp add: ReductionIndices_def ReduceIndicesCall_def op_defs)
qed

subsection \<open>The values that the operations leave\<close>


lemma wp_Reduction_values:
  assumes "self < next_ref w"
  shows "wp (Reduction lib self dims keepdim od m p is_norm) (\<lambda>_. True)
     (\<lambda>out w'.
        if numel (heap w self) = 0
        then elements (heap w' out) = Zero
             \<and> trace w' = trace w @ [MUSAGuard (device (heap w self))]
        else elements (heap w' out)
               = ReduceRun m
                   (marshalled_dims (heap w self)
                      (map (\<lambda>d. int (wrap_into_range (dim (heap w self)) d)) dims))
                   (marshalled_ord is_norm p) (elements (heap w self))
             \<and> trace w' = trace w @ [MUSAGuard (device (heap w self))]
                 @ marshalled_reduce (device (heap w self)) out
                   (if is_contiguous (heap w self) then self else Suc (next_ref w)) m
                   (marshalled_dims (heap w self)
                      (map (\<lambda>d. int (wrap_into_range (dim (heap w self)) d)) dims))
                   (marshalled_ord is_norm p)) w"
  using assms
  by (auto simp: Reduction_def ReduceCall_def op_defs maybe_wrap_dims_Inr norm_p_value_def
      marshalled_dims_def marshalled_ord_def marshalled_reduce_def
      split: sum.splits option.splits Scalar.splits)













section \<open>Theorems: result types\<close>

text \<open>
  C1. \<open>musa_infer_dtype_from_optional\<close> returns \<open>opt_dtype\<close> when it has a value;
  otherwise, when \<open>result\<close> is defined, the scalar type of \<open>result\<close>; otherwise the scalar
  type of \<open>self\<close>, except that an integral type of \<open>self\<close> (Byte, Char, Short, Int, Long,
  and also Bool) gives Long.
\<close>

theorem musa_infer_dtype_from_optional_rule:
  "musa_infer_dtype_from_optional self opt_dtype result =
     (case opt_dtype of
        Some d \<Rightarrow> d
      | None \<Rightarrow>
          if defined result then scalar_type result
          else if scalar_type self \<in> {kByte, kChar, kShort, kInt, kLong, kBool} then kLong
          else scalar_type self)"
  by (auto simp: musa_infer_dtype_from_optional_def musa_get_dtype_from_self_def
        isIntegralType_def split: option.splits)

section \<open>Theorems: MUSAStream\<close>

lemma sint_minus_one:
  assumes "- (2 ^ 31) < sint (p :: 32 word)"
  shows "sint (p - 1) = sint p - 1"
proof -
  have "sint p < 2 ^ 31"
    using sint_lt [of p] by simp
  with assms show ?thesis
    by (simp add: sint_word_diff signed_take_bit_int_eq_self)
qed

lemma Stream_eq_iff: "Stream_eq a b \<longleftrightarrow> a = b"
  by (cases a, cases b) (auto simp: Stream_eq_def Device_eq_def intro: Device.equality)

text \<open>
  C6. \<open>priority()\<close> returns the priority that the runtime reports minus 1 (as a signed
  number wherever the reported one is not the least \<open>int\<close>), so that the vendor's 1 and 0
  become 0 and -1, and raises when the runtime answers an error. \<open>priority_range()\<close>
  returns nothing but the pair (0, -1), and returns it exactly when the runtime answers
  success, the least priority is at least 1 and the greatest is at most 0.
\<close>

theorem priority_translates:
  "priority (musaSuccess, p) = Inr (p - 1)
   \<and> (- (2 ^ 31) < sint p \<longrightarrow> (\<exists>r. priority (musaSuccess, p) = Inr r \<and> sint r = sint p - 1))
   \<and> (err \<noteq> musaSuccess \<longrightarrow> priority (err, p) = Inl (MusaRuntimeError err))
   \<and> priority (musaSuccess, 1) = Inr 0
   \<and> priority (musaSuccess, 0) = Inr (- 1)
   \<and> (\<forall>r. priority_range (e, least, greatest) = Inr r \<longrightarrow>
         r = (0, - 1) \<and> e = musaSuccess \<and> 1 \<le>s least \<and> greatest \<le>s 0)
   \<and> (1 \<le>s least \<and> greatest \<le>s 0 \<longrightarrow> priority_range (musaSuccess, least, greatest) = Inr (0, - 1))"
  by (auto simp: priority_def priority_range_def TORCH_MUSA_CHECK_def sint_minus_one split: if_splits)

theorem priority_translates_witness:
  "(\<exists>r. priority (musaSuccess, 1) = Inr r \<and> sint r = sint (1 :: 32 word) - 1)
   \<and> priority (musaErrorCode 3, 1) = Inl (MusaRuntimeError (musaErrorCode 3))
   \<and> priority_range (musaSuccess, 1, 0) = Inr (0, - 1)"
proof -
  note t = priority_translates [of 1 "musaErrorCode 3" musaSuccess 1 0]
  have h1: "- (2 ^ 31) < sint (1 :: 32 word)" by simp
  have h2: "musaErrorCode 3 \<noteq> musaSuccess" by simp
  have h3: "(1 :: 32 word) \<le>s 1 \<and> (0 :: 32 word) \<le>s 0" by simp
  have a: "\<exists>r. priority (musaSuccess, 1) = Inr r \<and> sint r = sint (1 :: 32 word) - 1"
    using t h1 by blast
  have b: "priority (musaErrorCode 3, 1) = Inl (MusaRuntimeError (musaErrorCode 3))"
    using t h2 by blast
  have c: "priority_range (musaSuccess, 1, 0) = Inr (0, - 1)"
    using t h3 by blast
  show ?thesis
    using a b c by blast
qed

text \<open>
  C7. \<open>query()\<close> returns true exactly when the runtime reports success; when the
  runtime reports not-ready it clears the pending error and returns false; on every other
  error code it raises.
\<close>

theorem query_result:
  "((\<exists>rt'. query answer rt = Inr (True, rt')) \<longleftrightarrow> answer = musaSuccess)
   \<and> (answer = musaErrorNotReady \<longrightarrow>
        (\<exists>rt'. query answer rt = Inr (False, rt') \<and> last_error rt' = musaSuccess))
   \<and> (answer \<noteq> musaSuccess \<and> answer \<noteq> musaErrorNotReady \<longrightarrow>
        query answer rt = Inl (MusaRuntimeError answer))"
  by (auto simp: query_def musaStreamQuery_def musaGetLastError_def TORCH_MUSA_CHECK_def)

theorem query_result_witness:
  "(\<exists>rt'. query musaSuccess \<lparr>last_error = musaSuccess\<rparr> = Inr (True, rt'))
   \<and> (\<exists>rt'. query musaErrorNotReady \<lparr>last_error = musaSuccess\<rparr> = Inr (False, rt') \<and> last_error rt' = musaSuccess)
   \<and> query (musaErrorCode 700) \<lparr>last_error = musaSuccess\<rparr> = Inl (MusaRuntimeError (musaErrorCode 700))"
  using query_result [of musaSuccess "\<lparr>last_error = musaSuccess\<rparr>"]
    query_result [of musaErrorNotReady "\<lparr>last_error = musaSuccess\<rparr>"]
    query_result [of "musaErrorCode 700" "\<lparr>last_error = musaSuccess\<rparr>"]
  by simp

text \<open>
  C8, as stated, at a stream built with \<open>UNCHECKED\<close> around a CPU stream:
  \<open>unpack3\<close> of its three packed fields raises, because \<open>unpack3\<close> builds the stream
  with the checking constructor.
\<close>

theorem unpack3_pack3_unchecked_counterexample:
  "unpack3 (stream_id (pack3 (MUSAStream_UNCHECKED \<lparr>s_device = \<lparr>d_type = CPU, d_index = 0\<rparr>, s_id = 7\<rparr>)))
           (device_index (pack3 (MUSAStream_UNCHECKED \<lparr>s_device = \<lparr>d_type = CPU, d_index = 0\<rparr>, s_id = 7\<rparr>)))
           (device_type (pack3 (MUSAStream_UNCHECKED \<lparr>s_device = \<lparr>d_type = CPU, d_index = 0\<rparr>, s_id = 7\<rparr>)))
     = Inl (TorchCheck ''stream_.device_type() == kMUSA'')"
  by (simp add: unpack3_def pack3_def Stream_pack3_def Stream_unpack3_def isValidDeviceType_def
      kMUSA_def MUSAStream_checked_def MUSAStream_UNCHECKED_def)

text \<open>
  C8, amended. For every MUSAStream whose wrapped stream has the device type of the
  backend (what the checking constructor lets through), \<open>unpack3\<close> of the three fields
  of \<open>pack3\<close> gives a stream equal to it under \<open>operator==\<close>; for every MUSAStream
  whose wrapped stream has any other device type (only the \<open>UNCHECKED\<close> constructor
  builds one), \<open>unpack3\<close> of the three fields of \<open>pack3\<close> raises; and two MUSAStreams
  that compare equal have equal hash values.
\<close>

theorem unpack3_pack3:
  "(d_type (s_device (unwrap s)) = kMUSA \<longrightarrow>
      (\<exists>t. unpack3 (stream_id (pack3 s)) (device_index (pack3 s)) (device_type (pack3 s)) = Inr t
           \<and> MUSAStream_eq t s))
   \<and> (d_type (s_device (unwrap s)) \<noteq> kMUSA \<longrightarrow>
      (\<exists>e. unpack3 (stream_id (pack3 s)) (device_index (pack3 s)) (device_type (pack3 s)) = Inl e))
   \<and> (MUSAStream_eq a b \<longrightarrow> hash_MUSAStream hash_Stream a = hash_MUSAStream hash_Stream b)"
proof (intro conjI impI)
  assume musa: "d_type (s_device (unwrap s)) = kMUSA"
  have "unpack3 (stream_id (pack3 s)) (device_index (pack3 s)) (device_type (pack3 s))
          = Inr \<lparr>m_stream = m_stream s\<rparr>"
    using musa
    by (simp add: unpack3_def pack3_def Stream_pack3_def Stream_unpack3_def
        isValidDeviceType_def kMUSA_def MUSAStream_checked_def unwrap_def)
  moreover have "MUSAStream_eq \<lparr>m_stream = m_stream s\<rparr> s"
    by (simp add: MUSAStream_eq_def Stream_eq_iff unwrap_def)
  ultimately show "\<exists>t. unpack3 (stream_id (pack3 s)) (device_index (pack3 s))
                        (device_type (pack3 s)) = Inr t \<and> MUSAStream_eq t s"
    by blast
next
  assume other: "d_type (s_device (unwrap s)) \<noteq> kMUSA"
  show "\<exists>e. unpack3 (stream_id (pack3 s)) (device_index (pack3 s)) (device_type (pack3 s)) = Inl e"
  proof (cases "isValidDeviceType (d_type (s_device (unwrap s)))")
    case True
    then have "unpack3 (stream_id (pack3 s)) (device_index (pack3 s)) (device_type (pack3 s))
                 = Inl (TorchCheck ''stream_.device_type() == kMUSA'')"
      using other
      by (simp add: unpack3_def pack3_def Stream_pack3_def Stream_unpack3_def
          MUSAStream_checked_def unwrap_def)
    then show ?thesis by blast
  next
    case False
    then have "unpack3 (stream_id (pack3 s)) (device_index (pack3 s)) (device_type (pack3 s))
                 = Inl (TorchCheck ''isValidDeviceType(device_type)'')"
      by (simp add: unpack3_def pack3_def Stream_pack3_def Stream_unpack3_def unwrap_def)
    then show ?thesis by blast
  qed
next
  assume "MUSAStream_eq a b"
  then have "unwrap a = unwrap b"
    by (simp add: MUSAStream_eq_def Stream_eq_iff)
  then show "hash_MUSAStream hash_Stream a = hash_MUSAStream hash_Stream b"
    by (simp add: hash_MUSAStream_def)
qed

theorem unpack3_pack3_witness:
  "(\<exists>t. unpack3 (stream_id (pack3 (MUSAStream_UNCHECKED \<lparr>s_device = \<lparr>d_type = PrivateUse1, d_index = 0\<rparr>, s_id = 7\<rparr>)))
             (device_index (pack3 (MUSAStream_UNCHECKED \<lparr>s_device = \<lparr>d_type = PrivateUse1, d_index = 0\<rparr>, s_id = 7\<rparr>)))
             (device_type (pack3 (MUSAStream_UNCHECKED \<lparr>s_device = \<lparr>d_type = PrivateUse1, d_index = 0\<rparr>, s_id = 7\<rparr>))) = Inr t
        \<and> MUSAStream_eq t (MUSAStream_UNCHECKED \<lparr>s_device = \<lparr>d_type = PrivateUse1, d_index = 0\<rparr>, s_id = 7\<rparr>))
   \<and> (\<exists>e. unpack3 (stream_id (pack3 (MUSAStream_UNCHECKED \<lparr>s_device = \<lparr>d_type = CUDA, d_index = 1\<rparr>, s_id = 3\<rparr>)))
             (device_index (pack3 (MUSAStream_UNCHECKED \<lparr>s_device = \<lparr>d_type = CUDA, d_index = 1\<rparr>, s_id = 3\<rparr>)))
             (device_type (pack3 (MUSAStream_UNCHECKED \<lparr>s_device = \<lparr>d_type = CUDA, d_index = 1\<rparr>, s_id = 3\<rparr>))) = Inl e)
   \<and> hash_MUSAStream (\<lambda>s. s_id s) (MUSAStream_UNCHECKED \<lparr>s_device = \<lparr>d_type = PrivateUse1, d_index = 0\<rparr>, s_id = 7\<rparr>)
     = hash_MUSAStream (\<lambda>s. s_id s) (MUSAStream_UNCHECKED \<lparr>s_device = \<lparr>d_type = PrivateUse1, d_index = 0\<rparr>, s_id = 7\<rparr>)"
proof -
  let ?m = "MUSAStream_UNCHECKED \<lparr>s_device = \<lparr>d_type = PrivateUse1, d_index = 0\<rparr>, s_id = 7\<rparr>"
  let ?c = "MUSAStream_UNCHECKED \<lparr>s_device = \<lparr>d_type = CUDA, d_index = 1\<rparr>, s_id = 3\<rparr>"
  have h: "d_type (s_device (unwrap ?m)) = kMUSA" "d_type (s_device (unwrap ?c)) \<noteq> kMUSA"
    "MUSAStream_eq ?m ?m"
    by (simp_all add: MUSAStream_UNCHECKED_def unwrap_def kMUSA_def MUSAStream_eq_def
        Stream_eq_def Device_eq_def)
  note t = unpack3_pack3 [of ?m ?m ?m "\<lambda>s. s_id s"]
  note u = unpack3_pack3 [of ?c ?m ?m "\<lambda>s. s_id s"]
  have a: "\<exists>t. unpack3 (stream_id (pack3 ?m)) (device_index (pack3 ?m)) (device_type (pack3 ?m)) = Inr t
             \<and> MUSAStream_eq t ?m"
    using t h(1) by blast
  have b: "\<exists>e. unpack3 (stream_id (pack3 ?c)) (device_index (pack3 ?c)) (device_type (pack3 ?c)) = Inl e"
    using u h(2) by blast
  have c: "hash_MUSAStream (\<lambda>s. s_id s) ?m = hash_MUSAStream (\<lambda>s. s_id s) ?m"
    using t h(3) by blast
  show ?thesis
    using a b c by blast
qed

section \<open>Theorems: Reduce.cpp\<close>

text \<open>
  C3. For a tensor \<open>self\<close> of the store (of at most 64 dimensions, the host
  framework's limit), a dim list and a keepdim flag: whenever \<open>Reduction\<close> returns, its
  result has the reduction shape in the words of the specification, computed from the
  dims as given; a reduction other than a norm returns whenever the library succeeds and
  the host framework accepts the dims. Whenever \<open>ReductionIndices\<close> returns, both
  outputs have that shape for the one dim; it returns under the same conditions.
\<close>

theorem reduction_shape:
  assumes self: "self < next_ref w" and n: "dim (heap w self) \<le> 64"
  shows "(\<forall>out w'. Reduction lib self dims keepdim od m p is_norm w = (Inr out, w') \<longrightarrow>
            sizes (heap w' out) = spec_reduction_shape (sizes (heap w self)) dims keepdim)
       \<and> ((\<forall>c. lib c = SUCCESS) \<and> dims_accepted (dim (heap w self)) dims \<longrightarrow>
            (\<exists>out w'. Reduction lib self dims keepdim od m None False w = (Inr out, w')))
       \<and> (\<forall>vals indices w'. ReductionIndices lib self d keepdim m w = (Inr (vals, indices), w') \<longrightarrow>
            sizes (heap w' vals) = spec_reduction_shape (sizes (heap w self)) [d] keepdim
            \<and> sizes (heap w' indices) = spec_reduction_shape (sizes (heap w self)) [d] keepdim)
       \<and> ((\<forall>c. lib c = SUCCESS) \<and> dims_accepted (dim (heap w self)) [d] \<longrightarrow>
            (\<exists>r w'. ReductionIndices lib self d keepdim m w = (Inr r, w')))"
proof (intro conjI allI impI)
  fix out w'
  assume "Reduction lib self dims keepdim od m p is_norm w = (Inr out, w')"
  from wp_returned [OF wp_Reduction [OF self] this]
  have "dims_in_range (dim (heap w self)) dims"
    and "get_reduction_shape (heap w self)
           (map (\<lambda>d. int (wrap_into_range (dim (heap w self)) d)) dims) keepdim
          = Inr (sizes (heap w' out))"
    by auto
  then show "sizes (heap w' out) = spec_reduction_shape (sizes (heap w self)) dims keepdim"
    using get_reduction_shape_spec [of "heap w self" dims keepdim] n by (simp add: dim_def)
next
  assume "(\<forall>c. lib c = SUCCESS) \<and> dims_accepted (dim (heap w self)) dims"
  then show "\<exists>out w'. Reduction lib self dims keepdim od m None False w = (Inr out, w')"
    using wp_returns [OF Reduction_returns [OF self]] by blast
next
  fix vals indices w'
  assume "ReductionIndices lib self d keepdim m w = (Inr (vals, indices), w')"
  from wp_returned [OF wp_ReductionIndices [OF self] this]
  have r: "dims_in_range (dim (heap w self)) [d]"
    and g: "get_reduction_shape (heap w self)
           (map (\<lambda>d. int (wrap_into_range (dim (heap w self)) d)) [d]) keepdim
          = Inr (sizes (heap w' vals))"
    and i: "sizes (heap w' indices) = sizes (heap w' vals)"
    by auto
  from r g show "sizes (heap w' vals) = spec_reduction_shape (sizes (heap w self)) [d] keepdim"
    using get_reduction_shape_spec [of "heap w self" "[d]" keepdim] n by (simp add: dim_def)
  with i show "sizes (heap w' indices) = spec_reduction_shape (sizes (heap w self)) [d] keepdim"
    by simp
next
  assume "(\<forall>c. lib c = SUCCESS) \<and> dims_accepted (dim (heap w self)) [d]"
  then show "\<exists>r w'. ReductionIndices lib self d keepdim m w = (Inr r, w')"
    using wp_returns [OF ReductionIndices_returns [OF self]] by blast
qed

lemma example_shapes:
  "spec_reduction_shape [2, 3] [- 1] False = [2]"
  "spec_reduction_shape [2, 3] [1] True = [2, 1]"
  "dims_accepted 2 [- 1]"
  "dims_accepted 2 [1]"
  by code_simp+

theorem reduction_shape_witness:
  "(\<exists>out w'. Reduction all_success 0 [- 1] False None Mode_ADD None False
                (store1 (tensor_of kFloat [2, 3] True 0)) = (Inr out, w')
              \<and> sizes (heap w' out) = [2])
   \<and> (\<exists>r w'. ReductionIndices all_success 0 1 True Mode_MAX
                (store1 (tensor_of kFloat [2, 3] True 0)) = (Inr r, w')
              \<and> sizes (heap w' (fst r)) = [2, 1] \<and> sizes (heap w' (snd r)) = [2, 1])"
proof -
  let ?w = "store1 (tensor_of kFloat [2, 3] True 0)"
  have h: "0 < next_ref ?w" "dim (heap ?w 0) \<le> 64" "sizes (heap ?w 0) = [2, 3]"
    "dim (heap ?w 0) = 2" "\<forall>c. all_success c = SUCCESS"
    by (simp_all add: store1_def tensor_of_def dim_def all_success_def)
  note t = reduction_shape [where self = 0 and w = ?w and lib = all_success and dims = "[- 1]"
      and keepdim = False and od = None and m = Mode_ADD and p = None and is_norm = False
      and d = 1, OF h(1) h(2)]
  note u = reduction_shape [where self = 0 and w = ?w and lib = all_success and dims = "[- 1]"
      and keepdim = True and od = None and m = Mode_MAX and p = None and is_norm = False
      and d = 1, OF h(1) h(2)]
  have a: "\<exists>out w'. Reduction all_success 0 [- 1] False None Mode_ADD None False ?w = (Inr out, w')
              \<and> sizes (heap w' out) = [2]"
    using t h example_shapes by (metis (no_types, lifting))
  have b: "\<exists>r w'. ReductionIndices all_success 0 1 True Mode_MAX ?w = (Inr r, w')
              \<and> sizes (heap w' (fst r)) = [2, 1] \<and> sizes (heap w' (snd r)) = [2, 1]"
    using u h example_shapes by (metis (no_types, lifting) prod.collapse)
  show ?thesis using a b by blast
qed

subsection \<open>Any and All\<close>

lemma wp_Any:
  assumes "self < next_ref w"
  shows "wp (Any lib self) (\<lambda>_. True)
           (\<lambda>out w'. scalar_type (heap w' out) = kBool
              \<and> elements (heap w' out)
                  = (if scalar_type (heap w self) \<noteq> kBool
                     then ConvertedTo kBool
                            (if numel (heap w self) = 0 then Zero
                             else ReduceRun Mode_OR [] None (elements (heap w self)))
                     else (if numel (heap w self) = 0 then Zero
                           else ReduceRun Mode_OR [] None (elements (heap w self))))) w"
  unfolding Any_def
  apply (subst wp_bnd, subst wp_read, subst wp_bnd)
  apply (rule wp_mono [OF wp_conj [OF wp_Reduction [OF assms] wp_Reduction_values [OF assms]]])
   apply simp
  apply (auto simp: musa_infer_dtype_from_optional_def undefined_Tensor_def
      musa_get_dtype_from_self_def op_defs marshalled_dims_def marshalled_ord_def
      split: if_splits)
  done

lemma wp_All:
  assumes "self < next_ref w"
  shows "wp (All lib self) (\<lambda>_. True)
           (\<lambda>out w'. scalar_type (heap w' out) = kBool
              \<and> elements (heap w' out)
                  = (if scalar_type (heap w self) \<noteq> kBool
                     then ConvertedTo kBool
                            (if numel (heap w self) = 0 then Zero
                             else ReduceRun Mode_AND [] None (elements (heap w self)))
                     else (if numel (heap w self) = 0 then Zero
                           else ReduceRun Mode_AND [] None (elements (heap w self))))) w"
  unfolding All_def
  apply (subst wp_bnd, subst wp_read, subst wp_bnd)
  apply (rule wp_mono [OF wp_conj [OF wp_Reduction [OF assms] wp_Reduction_values [OF assms]]])
   apply simp
  apply (auto simp: musa_infer_dtype_from_optional_def undefined_Tensor_def
      musa_get_dtype_from_self_def op_defs marshalled_dims_def marshalled_ord_def
      split: if_splits)
  done

lemma dims_accepted_Nil: "dims_accepted n []"
  by (simp add: dims_accepted_def dims_in_range_def)

lemma Any_returns:
  assumes "self < next_ref w" "\<forall>c. lib c = SUCCESS"
  shows "wp (Any lib self) (\<lambda>_. False) (\<lambda>out w'. True) w"
  unfolding Any_def
  apply (simp add: op_defs)
  apply (rule wp_mono [OF Reduction_returns [OF assms(1) dims_accepted_Nil assms(2)]])
   apply (simp_all add: op_defs)
  done

lemma All_returns:
  assumes "self < next_ref w" "\<forall>c. lib c = SUCCESS"
  shows "wp (All lib self) (\<lambda>_. False) (\<lambda>out w'. True) w"
  unfolding All_def
  apply (simp add: op_defs)
  apply (rule wp_mono [OF Reduction_returns [OF assms(1) dims_accepted_Nil assms(2)]])
   apply (simp_all add: op_defs)
  done

text \<open>
  C10. For a tensor \<open>self\<close> of the store: whenever \<open>Any(self)\<close> or \<open>All(self)\<close>
  returns, the result has scalar type Bool and holds the result of the full reduction of
  \<open>self\<close> (the OR run, for \<open>All\<close> the AND run, of the library over all of \<open>self\<close>, or
  the zero fill of a tensor without elements), converted to Bool when \<open>self\<close> is not
  Bool; both return whenever the library succeeds.
\<close>

theorem Any_All_return_Bool:
  assumes self: "self < next_ref w"
  shows "(\<forall>out w'. Any lib self w = (Inr out, w') \<longrightarrow>
            scalar_type (heap w' out) = kBool
            \<and> elements (heap w' out)
                = (if scalar_type (heap w self) \<noteq> kBool
                   then ConvertedTo kBool
                          (if numel (heap w self) = 0 then Zero
                           else ReduceRun Mode_OR [] None (elements (heap w self)))
                   else (if numel (heap w self) = 0 then Zero
                         else ReduceRun Mode_OR [] None (elements (heap w self)))))
       \<and> (\<forall>out w'. All lib self w = (Inr out, w') \<longrightarrow>
            scalar_type (heap w' out) = kBool
            \<and> elements (heap w' out)
                = (if scalar_type (heap w self) \<noteq> kBool
                   then ConvertedTo kBool
                          (if numel (heap w self) = 0 then Zero
                           else ReduceRun Mode_AND [] None (elements (heap w self)))
                   else (if numel (heap w self) = 0 then Zero
                         else ReduceRun Mode_AND [] None (elements (heap w self)))))
       \<and> ((\<forall>c. lib c = SUCCESS) \<longrightarrow>
            (\<exists>out w'. Any lib self w = (Inr out, w')) \<and> (\<exists>out w'. All lib self w = (Inr out, w')))"
proof -
  note a = wp_returned [OF wp_Any [OF self, of lib]]
  note b = wp_returned [OF wp_All [OF self, of lib]]
  have c: "(\<forall>c. lib c = SUCCESS) \<longrightarrow>
            (\<exists>out w'. Any lib self w = (Inr out, w')) \<and> (\<exists>out w'. All lib self w = (Inr out, w'))"
    using wp_returns [OF Any_returns [OF self]] wp_returns [OF All_returns [OF self]] by blast
  show ?thesis
    by (intro conjI allI impI a b c [rule_format, THEN conjunct1] c [rule_format, THEN conjunct2] c)
      (assumption | rule c)+
qed

theorem Any_All_return_Bool_witness:
  "(\<exists>out w'. Any all_success 0 (store1 (tensor_of kFloat [2, 3] True 0)) = (Inr out, w')
      \<and> scalar_type (heap w' out) = kBool
      \<and> elements (heap w' out) = ConvertedTo kBool (ReduceRun Mode_OR [] None (Given 0)))
   \<and> (\<exists>out w'. All all_success 0 (store1 (tensor_of kBool [2, 3] True 0)) = (Inr out, w')
      \<and> scalar_type (heap w' out) = kBool
      \<and> elements (heap w' out) = ReduceRun Mode_AND [] None (Given 0))"
proof -
  let ?w = "store1 (tensor_of kFloat [2, 3] True 0)"
  let ?v = "store1 (tensor_of kBool [2, 3] True 0)"
  have h: "0 < next_ref ?w" "0 < next_ref ?v" "\<forall>c. all_success c = SUCCESS"
    by (simp_all add: store1_def tensor_of_def all_success_def)
  have k: "scalar_type (heap ?w 0) \<noteq> kBool" "numel (heap ?w 0) \<noteq> 0" "elements (heap ?w 0) = Given 0"
    "scalar_type (heap ?v 0) = kBool" "numel (heap ?v 0) \<noteq> 0" "elements (heap ?v 0) = Given 0"
    by (simp_all add: store1_def tensor_of_def numel_def)
  note t = Any_All_return_Bool [where self = 0 and w = ?w and lib = all_success, OF h(1)]
  note u = Any_All_return_Bool [where self = 0 and w = ?v and lib = all_success, OF h(2)]
  obtain o1 w1 where r1: "Any all_success 0 ?w = (Inr o1, w1)"
    using t h(3) by blast
  obtain o2 w2 where r2: "All all_success 0 ?v = (Inr o2, w2)"
    using u h(3) by blast
  have a: "scalar_type (heap w1 o1) = kBool
      \<and> elements (heap w1 o1) = ConvertedTo kBool (ReduceRun Mode_OR [] None (Given 0))"
    using t r1 k(1,2,3) by simp
  have b: "scalar_type (heap w2 o2) = kBool
      \<and> elements (heap w2 o2) = ReduceRun Mode_AND [] None (Given 0)"
    using u r2 k(4,5,6) by simp
  show ?thesis
    using r1 r2 a b by blast
qed

subsection \<open>Where the values of a result come from\<close>

lemma wp_run: "wp m (\<lambda>_. False) Q w \<Longrightarrow> \<exists>x. fst (m w) = Inr x \<and> Q x (snd (m w))"
  by (auto simp: wp_def split: prod.splits sum.splits)




subsection \<open>Cumulative operations\<close>

lemma wp_CumulativeImpl_dtype:
  assumes "out < next_ref w"
  shows "wp (CumulativeImpl lib promoteTypes out inp d mode)
           (\<lambda>w'. scalar_type (heap w' out) = scalar_type (heap w out) \<and> next_ref w \<le> next_ref w')
           (\<lambda>_ w'. scalar_type (heap w' out) = scalar_type (heap w out) \<and> next_ref w \<le> next_ref w') w"
  using assms
  by (auto simp: CumulativeImpl_def make_proxy_def op_defs)

lemma wp_CumulativeImpl_copy_back:
  assumes "out < next_ref w"
  shows "wp (CumulativeImpl lib promoteTypes out inp d mode) (\<lambda>_. True)
     (\<lambda>_ w'. numel (heap w inp) \<noteq> 0
            \<and> snd (cumulative_ctypes promoteTypes (scalar_type (heap w inp)) (scalar_type (heap w out)))
                 \<noteq> scalar_type (heap w out)
           \<longrightarrow> (\<exists>c. elements (heap w' out)
                      = ConvertedTo (scalar_type (heap w out)) (CumRun mode (narrow_int d) c))) w"
  using assms
  by (auto simp: CumulativeImpl_def make_proxy_def op_defs)

lemma wp_CumulativeOut_dtype:
  assumes "out < next_ref w"
  shows "wp (CumulativeOut lib promoteTypes self d dtype out mode)
           (\<lambda>w'. scalar_type (heap w' out) = scalar_type (heap w out))
           (\<lambda>_ w'. scalar_type (heap w' out) = scalar_type (heap w out)) w"
  unfolding CumulativeOut_def
  apply (simp add: op_defs split: option.splits)
  apply (intro conjI impI allI)
  apply (rule wp_mono [OF wp_CumulativeImpl_dtype], (use assms in simp)+)+
  done

text \<open>
  C9. For an \<open>out\<close> tensor of the store, in every run, returning or raising:
  \<open>CumulativeImpl\<close> leaves the scalar type of \<open>out\<close> as it was, and so do
  \<open>CumulativeOut\<close> and the in-place \<open>Cumulative_\<close> built on it. Whenever
  \<open>CumulativeImpl\<close> returns for an input with elements and its computation type for the
  output differs from the scalar type of \<open>out\<close>, the elements of \<open>out\<close> are the result of
  the cumulative run of the library converted to the scalar type of \<open>out\<close>.
\<close>

theorem CumulativeImpl_keeps_out_dtype:
  assumes out: "out < next_ref w"
  shows "scalar_type (heap (snd (CumulativeImpl lib promoteTypes out inp d mode w)) out)
           = scalar_type (heap w out)
       \<and> scalar_type (heap (snd (CumulativeOut lib promoteTypes inp d dtype out mode w)) out)
           = scalar_type (heap w out)
       \<and> scalar_type (heap (snd (Cumulative_inplace lib promoteTypes out d dtype mode w)) out)
           = scalar_type (heap w out)
       \<and> (\<forall>w'. CumulativeImpl lib promoteTypes out inp d mode w = (Inr (), w') \<longrightarrow>
            numel (heap w inp) \<noteq> 0
            \<and> snd (cumulative_ctypes promoteTypes (scalar_type (heap w inp)) (scalar_type (heap w out)))
                 \<noteq> scalar_type (heap w out) \<longrightarrow>
            (\<exists>c. elements (heap w' out)
                = ConvertedTo (scalar_type (heap w out)) (CumRun mode (narrow_int d) c)))"
proof -
  have a: "scalar_type (heap (snd (CumulativeImpl lib promoteTypes out inp d mode w)) out)
             = scalar_type (heap w out)" for inp
    using wp_always [OF wp_mono [OF wp_CumulativeImpl_dtype [OF out, of lib promoteTypes inp d mode],
        of "\<lambda>w'. scalar_type (heap w' out) = scalar_type (heap w out)"
           "\<lambda>_ w'. scalar_type (heap w' out) = scalar_type (heap w out)"]]
    by simp
  have b: "scalar_type (heap (snd (CumulativeOut lib promoteTypes inp d dtype out mode w)) out)
             = scalar_type (heap w out)"
    using wp_always [OF wp_CumulativeOut_dtype [OF out]] .
  have c: "scalar_type (heap (snd (Cumulative_inplace lib promoteTypes out d dtype mode w)) out)
             = scalar_type (heap w out)"
    using a [of out]
    by (auto simp: Cumulative_inplace_def bnd_def ret_def split: prod.splits sum.splits)
  note e = wp_returned [OF wp_CumulativeImpl_copy_back [OF out, of lib promoteTypes inp d mode]]
  have f: "\<forall>w'. CumulativeImpl lib promoteTypes out inp d mode w = (Inr (), w') \<longrightarrow>
            numel (heap w inp) \<noteq> 0
            \<and> snd (cumulative_ctypes promoteTypes (scalar_type (heap w inp)) (scalar_type (heap w out)))
                 \<noteq> scalar_type (heap w out) \<longrightarrow>
            (\<exists>c. elements (heap w' out)
                = ConvertedTo (scalar_type (heap w out)) (CumRun mode (narrow_int d) c))"
    using e by blast
  show ?thesis
    by (intro conjI a b c f)
qed

theorem CumulativeImpl_keeps_out_dtype_witness:
  "scalar_type (heap (snd (CumulativeImpl all_success (\<lambda>a b. a) 1 0 0 CUM_ADD
       (store2 (tensor_of kLong [2, 3] True 0) (tensor_of kShort [2, 3] True 1)))) 1) = kShort
   \<and> (\<exists>w' c. CumulativeImpl all_success (\<lambda>a b. a) 1 0 0 CUM_ADD
          (store2 (tensor_of kLong [2, 3] True 0) (tensor_of kShort [2, 3] True 1)) = (Inr (), w')
        \<and> elements (heap w' 1) = ConvertedTo kShort (CumRun CUM_ADD (narrow_int 0) c))"
proof -
  let ?w = "store2 (tensor_of kLong [2, 3] True 0) (tensor_of kShort [2, 3] True 1)"
  have h: "1 < next_ref ?w" "\<forall>c. all_success c = SUCCESS" "numel (heap ?w 0) \<noteq> 0"
    "scalar_type (heap ?w 1) = kShort" "scalar_type (heap ?w 0) = kLong"
    by (simp_all add: store2_def tensor_of_def all_success_def numel_def)
  have k: "snd (cumulative_ctypes (\<lambda>a b. a) kLong kShort) \<noteq> kShort"
    by (simp add: cumulative_ctypes_def isFloatingType_def)
  note t = CumulativeImpl_keeps_out_dtype [where out = 1 and w = ?w and lib = all_success
      and promoteTypes = "\<lambda>a b. a" and inp = 0 and d = 0 and mode = CUM_ADD and dtype = None,
      OF h(1)]
  have "wp (CumulativeImpl all_success (\<lambda>a b. a) 1 0 0 CUM_ADD) (\<lambda>_. False) (\<lambda>_ w'. True) ?w"
    by (simp add: CumulativeImpl_def make_proxy_def op_defs store2_def tensor_of_def
        all_success_def numel_def dim_def cumulative_ctypes_def isFloatingType_def)
  from wp_returns [OF this]
  obtain w' where r: "CumulativeImpl all_success (\<lambda>a b. a) 1 0 0 CUM_ADD ?w = (Inr (), w')"
    by auto
  have a: "scalar_type (heap (snd (CumulativeImpl all_success (\<lambda>a b. a) 1 0 0 CUM_ADD ?w)) 1) = kShort"
    using t h(4) by simp
  have b: "\<exists>c. elements (heap w' 1) = ConvertedTo kShort (CumRun CUM_ADD (narrow_int 0) c)"
    using t r h(3,4,5) k by simp
  show ?thesis
    using a b r by blast
qed

text \<open>
  \<open>CumulativeOut\<close> with a \<open>dtype\<close> argument that differs from the scalar type of
  \<open>out\<close> raises and leaves the store as it was. With no such argument, an \<open>out\<close> that
  is contiguous, or that \<open>resize_output\<close> resizes, holds the cumulative result
  afterwards.
\<close>

lemma CumulativeOut_dtype_mismatch:
  assumes "dtype = Some t" "t \<noteq> scalar_type (heap w out)"
  shows "CumulativeOut lib promoteTypes self d dtype out mode w
           = (Inl (TorchCheck ''Expected out tensor to have dtype''), w)"
proof -
  have "wp (CumulativeOut lib promoteTypes self d dtype out mode)
          (\<lambda>w'. w' = w) (\<lambda>_ _. False) w"
    using assms by (simp add: CumulativeOut_def)
  then show ?thesis
    using assms
    by (auto simp: wp_def CumulativeOut_def bnd_def read_def raise_def
        split: prod.splits sum.splits)
qed

lemma wp_CumulativeOut_filled:
  assumes "out < next_ref w" "self < next_ref w" "out \<noteq> self"
    and "dtype = None \<or> dtype = Some (scalar_type (heap w out))"
    and "is_contiguous (heap w out) \<or> sizes (heap w out) \<noteq> sizes (heap w self)"
  shows "wp (CumulativeOut lib promoteTypes self d dtype out mode) (\<lambda>_. True)
     (\<lambda>r w'. r = out \<and> sizes (heap w' out) = sizes (heap w self)
        \<and> (numel (heap w self) \<noteq> 0 \<longrightarrow>
             cumulative_of mode (narrow_int d) (elements (heap w self)) (elements (heap w' out)))) w"
  using assms
  by (auto simp: CumulativeOut_def CumulativeImpl_def make_proxy_def op_defs)

text \<open>
  C4, at an \<open>out\<close> tensor of the right type and shape that is not contiguous, with no
  \<open>dtype\<close> argument: \<open>CumSumOut\<close> returns \<open>out\<close> with the elements it had. The library
  has written the cumulative sum into the contiguous copy that \<open>FormatContiguous\<close> made
  (handle 2), and \<open>CumulativeImpl\<close> copies back only when the types differ.
\<close>

theorem CumSumOut_noncontiguous_out_not_filled:
  "fst (CumSumOut all_success promoteTypes 0 1 None 1
          (store2 (tensor_of kLong [2, 3] True 0) (tensor_of kLong [2, 3] False 1))) = Inr 1
   \<and> elements (heap (snd (CumSumOut all_success promoteTypes 0 1 None 1
          (store2 (tensor_of kLong [2, 3] True 0) (tensor_of kLong [2, 3] False 1)))) 1) = Given 1
   \<and> \<not> cumulative_of CUM_ADD (narrow_int 1) (Given 0)
        (elements (heap (snd (CumSumOut all_success promoteTypes 0 1 None 1
          (store2 (tensor_of kLong [2, 3] True 0) (tensor_of kLong [2, 3] False 1)))) 1))
   \<and> elements (heap (snd (CumSumOut all_success promoteTypes 0 1 None 1
          (store2 (tensor_of kLong [2, 3] True 0) (tensor_of kLong [2, 3] False 1)))) 2)
       = CumRun CUM_ADD (narrow_int 1) (Given 0)"
proof -
  have "wp (CumSumOut all_success promoteTypes 0 1 None 1) (\<lambda>_. False)
          (\<lambda>out w'. out = 1 \<and> elements (heap w' 1) = Given 1
             \<and> elements (heap w' 2) = CumRun CUM_ADD (narrow_int 1) (Given 0))
          (store2 (tensor_of kLong [2, 3] True 0) (tensor_of kLong [2, 3] False 1))"
    by (simp add: CumSumOut_def CumulativeOut_def CumulativeImpl_def make_proxy_def op_defs
        store2_def tensor_of_def all_success_def numel_def dim_def cumulative_ctypes_def
        isFloatingType_def)
  from wp_run [OF this] show ?thesis by auto
qed

subsection \<open>Device guards\<close>

lemma guard_first_heap [simp]: "guard_first d (w\<lparr>heap := h\<rparr>) = guard_first d w"
  by (simp add: guard_first_def)

lemma guard_first_next_ref [simp]: "guard_first d (w\<lparr>next_ref := n\<rparr>) = guard_first d w"
  by (simp add: guard_first_def)

lemma guard_first_emit [simp]: "guard_first d w \<Longrightarrow> guard_first d (w\<lparr>trace := trace w @ [e]\<rparr>)"
  by (auto simp: guard_first_def)

lemma guard_first_guarded: "guard_first d w \<Longrightarrow> guarded d (trace w)"
  by (auto simp: guard_first_def)

lemma gf_bnd:
  assumes "\<And>w. guard_first d w \<Longrightarrow> wp m (guard_first d) (\<lambda>_. guard_first d) w"
    and "\<And>x w. guard_first d w \<Longrightarrow> wp (f x) (guard_first d) (\<lambda>_. guard_first d) w"
    and "guard_first d w"
  shows "wp (bnd m f) (guard_first d) (\<lambda>_. guard_first d) w"
proof -
  have "wp m (guard_first d) (\<lambda>x. wp (f x) (guard_first d) (\<lambda>_. guard_first d)) w"
    by (rule wp_mono [OF assms(1) [OF assms(3)]]) (auto intro: assms(2))
  then show ?thesis by simp
qed

lemma gf_if:
  assumes "guard_first d w \<Longrightarrow> wp m (guard_first d) (\<lambda>_. guard_first d) w"
    and "guard_first d w \<Longrightarrow> wp n (guard_first d) (\<lambda>_. guard_first d) w"
    and "guard_first d w"
  shows "wp (if b then m else n) (guard_first d) (\<lambda>_. guard_first d) w"
  using assms by simp

lemma gf_prim:
  "guard_first d w \<Longrightarrow> wp (ret x) (guard_first d) (\<lambda>_. guard_first d) w"
  "guard_first d w \<Longrightarrow> wp (raise e) (guard_first d) (\<lambda>_. guard_first d) w"
  "guard_first d w \<Longrightarrow> wp (read t) (guard_first d) (\<lambda>_. guard_first d) w"
  "guard_first d w \<Longrightarrow> wp (modify t g) (guard_first d) (\<lambda>_. guard_first d) w"
  "guard_first d w \<Longrightarrow> wp (alloc impl) (guard_first d) (\<lambda>_. guard_first d) w"
  "guard_first d w \<Longrightarrow> wp (emit ev) (guard_first d) (\<lambda>_. guard_first d) w"
  "guard_first d w \<Longrightarrow> wp (CHECK_MUDNN_STATUS lib c msg) (guard_first d) (\<lambda>_. guard_first d) w"
  "guard_first d w \<Longrightarrow> wp (norm_p_value p) (guard_first d) (\<lambda>_. guard_first d) w"
  by (simp_all add: norm_p_value_def split: option.splits Scalar.splits)

lemmas gf_rules = gf_bnd gf_if gf_prim

lemma guarded_after_guard:
  assumes "\<And>w. guard_first d w \<Longrightarrow> wp rest (guard_first d) (\<lambda>_. guard_first d) w"
    and "trace w = []"
  shows "wp (bnd (emit (MUSAGuard d)) (\<lambda>_. rest))
           (\<lambda>w'. guarded d (trace w')) (\<lambda>_ w'. guarded d (trace w')) w"
proof -
  have "guard_first d (w\<lparr>trace := trace w @ [MUSAGuard d]\<rparr>)"
    using assms(2) by (simp add: guard_first_def)
  from assms(1) [OF this]
  have "wp rest (\<lambda>w'. guarded d (trace w')) (\<lambda>_ w'. guarded d (trace w'))
          (w\<lparr>trace := trace w @ [MUSAGuard d]\<rparr>)"
    by (rule wp_mono) (auto intro: guard_first_guarded)
  then show ?thesis by simp
qed

lemma guarded_ReduceCall:
  assumes "trace w = []"
  shows "wp (ReduceCall lib output self dims m p is_norm)
           (\<lambda>w'. guarded (device (heap w self)) (trace w'))
           (\<lambda>_ w'. guarded (device (heap w self)) (trace w')) w"
  unfolding ReduceCall_def
  apply (subst wp_bnd, subst wp_read)
  apply (rule guarded_after_guard [OF _ assms])
  unfolding op_defs
  apply (intro gf_rules; assumption)
  done

lemma guarded_ReduceIndicesOnlyCall:
  assumes "trace w = []"
  shows "wp (ReduceIndicesOnlyCall lib output self d m)
           (\<lambda>w'. guarded (device (heap w self)) (trace w'))
           (\<lambda>_ w'. guarded (device (heap w self)) (trace w')) w"
  unfolding ReduceIndicesOnlyCall_def
  apply (subst wp_bnd, subst wp_read)
  apply (rule guarded_after_guard [OF _ assms])
  unfolding op_defs
  apply (intro gf_rules; assumption)
  done

lemma guarded_ReduceIndicesCall:
  assumes "trace w = []"
  shows "wp (ReduceIndicesCall lib output indices self d m)
           (\<lambda>w'. guarded (device (heap w self)) (trace w'))
           (\<lambda>_ w'. guarded (device (heap w self)) (trace w')) w"
proof (cases "scalar_type (heap w self) = scalar_type (heap w output)")
  case True
  show ?thesis
    unfolding ReduceIndicesCall_def
    apply (subst wp_bnd, subst wp_read)
    apply (subst wp_bnd, subst wp_read)
    apply (subst wp_bnd)
    apply (simp only: True if_True simp_thms wp_ret)
    apply (rule guarded_after_guard [OF _ assms])
    unfolding op_defs
    apply (intro gf_rules; assumption)
    done
next
  case False
  show ?thesis
    unfolding ReduceIndicesCall_def
    apply (subst wp_bnd, subst wp_read)
    apply (subst wp_bnd, subst wp_read)
    apply (subst wp_bnd)
    apply (simp only: False if_False simp_thms wp_raise)
    apply (simp add: assms)
    done
qed

lemma device_after_fill:
  "device (heap (w\<lparr>heap := (heap w)(out := (heap w out)\<lparr>elements := c\<rparr>)\<rparr>) inp)
     = device (heap w inp)"
  by simp

lemma guarded_CumulativeImpl:
  assumes "trace w = []"
  shows "wp (CumulativeImpl lib promoteTypes out inp d mode)
           (\<lambda>w'. guarded (device (heap w inp)) (trace w'))
           (\<lambda>_ w'. guarded (device (heap w inp)) (trace w')) w"
proof (cases "numel (heap w inp) = 0")
  case True
  show ?thesis
    unfolding CumulativeImpl_def
    apply (subst wp_bnd, subst wp_read)
    apply (simp only: True if_True simp_thms wp_ret)
    apply (simp add: assms)
    done
next
  case False
  show ?thesis
  proof (cases "dim (heap w inp) = 0")
    case d0: True
    show ?thesis
      unfolding CumulativeImpl_def
      apply (subst wp_bnd, subst wp_read)
      apply (simp only: False if_False simp_thms)
      apply (subst wp_bnd)
      apply (simp only: d0 if_True simp_thms)
      unfolding fill_inplace_def
      apply (subst wp_bnd, subst wp_read, subst wp_modify)
      apply (subst wp_bnd, subst wp_read)
      apply (simp only: device_after_fill)
      apply (rule guarded_after_guard)
      unfolding op_defs make_proxy_def
       apply (intro gf_rules; assumption)
      apply (simp add: assms)
      done
  next
    case d1: False
    show ?thesis
      unfolding CumulativeImpl_def
      apply (subst wp_bnd, subst wp_read)
      apply (simp only: False if_False simp_thms)
      apply (subst wp_bnd)
      apply (simp only: d1 if_False simp_thms wp_ret)
      apply (subst wp_bnd, subst wp_read)
      apply (rule guarded_after_guard [OF _ assms])
      unfolding op_defs make_proxy_def
      apply (intro gf_rules; assumption)
      done
  qed
qed


text \<open>
  C5. The four functions of Reduce.cpp that create library tensor handles and call the
  library (every operation of the file reaches the library through one of them): in
  every run that starts with an empty trace, returning or raising, a guard of the device
  of the input tensor comes before the first library tensor handle and the first call
  into the library.
\<close>

theorem library_calls_guarded:
  assumes "trace w = []"
  shows "guarded (device (heap w self)) (trace (snd (ReduceCall lib out self dims m p is_norm w)))
       \<and> guarded (device (heap w self)) (trace (snd (CumulativeImpl lib promoteTypes out self d mode w)))
       \<and> guarded (device (heap w self)) (trace (snd (ReduceIndicesCall lib out indices self d m w)))
       \<and> guarded (device (heap w self)) (trace (snd (ReduceIndicesOnlyCall lib out self d m w)))"
  by (intro conjI wp_always [OF guarded_ReduceCall [OF assms]]
      wp_always [OF guarded_CumulativeImpl [OF assms]]
      wp_always [OF guarded_ReduceIndicesCall [OF assms]]
      wp_always [OF guarded_ReduceIndicesOnlyCall [OF assms]])

theorem library_calls_guarded_witness:
  "guarded musa0 (trace (snd (ReduceCall all_success 1 0 [0] Mode_ADD None False
       (store2 (tensor_of kFloat [2, 3] True 0) (tensor_of kFloat [3] True 1)))))
   \<and> trace (snd (ReduceCall all_success 1 0 [0] Mode_ADD None False
       (store2 (tensor_of kFloat [2, 3] True 0) (tensor_of kFloat [3] True 1))))
      = [MUSAGuard musa0, CreateMUTensor_of 1, CreateMUTensor_of 0, GetMudnnHandle_call,
         Mudnn (Reduce_SetMode Mode_ADD), Mudnn (Reduce_SetDim [0]), Mudnn (Reduce_Run 1 0)]"
proof -
  let ?w = "store2 (tensor_of kFloat [2, 3] True 0) (tensor_of kFloat [3] True 1)"
  have h: "trace ?w = []" "device (heap ?w 0) = musa0"
    by (simp_all add: store2_def tensor_of_def)
  note t = library_calls_guarded [where w = ?w and self = 0 and lib = all_success and out = 1
      and dims = "[0]" and m = Mode_ADD and p = None and is_norm = False, OF h(1)]
  have a: "guarded musa0 (trace (snd (ReduceCall all_success 1 0 [0] Mode_ADD None False ?w)))"
    using t h(2) by simp
  have "wp (ReduceCall all_success 1 0 [0] Mode_ADD None False)
          (\<lambda>w'. False)
          (\<lambda>_ w'. trace w' = [MUSAGuard musa0, CreateMUTensor_of 1, CreateMUTensor_of 0,
             GetMudnnHandle_call, Mudnn (Reduce_SetMode Mode_ADD), Mudnn (Reduce_SetDim [0]),
             Mudnn (Reduce_Run 1 0)]) ?w"
    by (simp add: ReduceCall_def op_defs store2_def tensor_of_def all_success_def numel_def dim_def
        narrow_int_def)
  from wp_run [OF this] a show ?thesis by auto
qed

end
